theory Spec2Isabelle
  imports Main "HOL-Library.Sublist"
begin

section \<open>JavaScript values, strings and thrown values\<close>

text \<open>
  The application is Google Apps Script (JavaScript). A value handed to a service method
  is one of the following; numbers are restricted to integers and strings to code units
  below 256, which is all the configured data uses.
\<close>

datatype jsval = JUndefined | JNull | JBool bool | JNum int | JStr string | JObject

text \<open>ToBoolean, as used by \<^verbatim>\<open>!email\<close> and \<^verbatim>\<open>if (cached)\<close>.\<close>

fun truthy :: "jsval \<Rightarrow> bool" where
  "truthy JUndefined = False"
| "truthy JNull = False"
| "truthy (JBool b) = b"
| "truthy (JNum n) = (n \<noteq> 0)"
| "truthy (JStr s) = (s \<noteq> [])"
| "truthy JObject = True"

fun typeof :: "jsval \<Rightarrow> string" where
  "typeof JUndefined = ''undefined''"
| "typeof JNull = ''object''"
| "typeof (JBool b) = ''boolean''"
| "typeof (JNum n) = ''number''"
| "typeof (JStr s) = ''string''"
| "typeof JObject = ''object''"

definition digit_char :: "nat \<Rightarrow> char" where
  "digit_char n = char_of (48 + n)"

function decimal :: "nat \<Rightarrow> string" where
  "decimal n = (if n < 10 then [digit_char n] else decimal (n div 10) @ [digit_char (n mod 10)])"
  by pat_completeness auto
termination
  by (relation "measure (\<lambda>n. n)") auto

text \<open>ToString, as applied by a template literal \<^verbatim>\<open>`${email}`\<close>.\<close>

fun toString :: "jsval \<Rightarrow> string" where
  "toString JUndefined = ''undefined''"
| "toString JNull = ''null''"
| "toString (JBool b) = (if b then ''true'' else ''false'')"
| "toString (JNum n) = (if n < 0 then CHR ''-'' # decimal (nat (- n)) else decimal (nat n))"
| "toString (JStr s) = s"
| "toString JObject = ''[object Object]''"

text \<open>\<^verbatim>\<open>s.endsWith(t)\<close> and \<^verbatim>\<open>s.includes(t)\<close> on strings.\<close>

definition endsWith :: "string \<Rightarrow> string \<Rightarrow> bool" where
  "endsWith s t = suffix t s"

fun includes_str :: "string \<Rightarrow> string \<Rightarrow> bool" where
  "includes_str [] t = (t = [])"
| "includes_str (c # s) t = (prefix t (c # s) \<or> includes_str s t)"

text \<open>
  A thrown value: either \<^verbatim>\<open>new Error(message)\<close> (also what a platform service throws), or
  the plain object that \<^verbatim>\<open>createError(message, originalError, context)\<close> builds and the
  services throw in their handlers. The object's id, timestamp and sessionId are left out.
\<close>

datatype exn = Error string | TrackedError string "string option" string

fun message :: "exn \<Rightarrow> string" where
  "message (Error m) = m"
| "message (TrackedError m orig ctx) = m"

definition createError :: "string \<Rightarrow> exn option \<Rightarrow> string \<Rightarrow> exn" where
  "createError msg originalError ctx =
     TrackedError msg (map_option message originalError) ctx"

section \<open>Config.js\<close>

record config =
  SPREADSHEET_ID :: string
  SHEET_NAME :: string
  CAMPUS_COLUMN :: string
  DATE_COLUMNS :: "string list"
  COLUMNS_TO_REMOVE :: "nat list"
  DATE_FORMAT :: string
  USER_PERMISSIONS_DURATION :: nat
  DATA_CACHE_DURATION :: nat
  PREFIX :: string
  ALLOWED_DOMAIN :: string
  FULL_ACCESS_CAMPUS_COUNT :: nat
  CAMPUSES :: "string list"
  LEGACY_EMAIL_CAMPUS_MAPPING :: "string \<rightharpoonup> string list"

definition all_campuses :: "string list" where
  "all_campuses =
     [''Brandeis'', ''Brennan'', ''Clark'', ''Harlan'', ''Holmgreen'',
      ''Health Careers'', ''Excel'', ''Holmes'', ''Jay'', ''Marshall'',
      ''O'' @ [CHR 0x27] @ ''Connor'', ''NAHS'', ''Sotomayor'', ''Stevens'', ''Taft'',
      ''Warren'', ''Reddix'']"

text \<open>
  The entries of the object literal \<^verbatim>\<open>CONFIG.LEGACY_EMAIL_CAMPUS_MAPPING\<close>, in source
  order. No key occurs twice, so the literal denotes the map \<open>map_of\<close> of the list.
\<close>

definition mapping_entries :: "(string \<times> string list) list" where
  "mapping_entries =
     [(''alvaro.gomez@nisd.net'', [''Brandeis'', ''Brennan'', ''Clark'', ''Harlan'']),
      (''desiree.stjean@nisd.net'', [''Brandeis'']),
      (''belinda.myles@nisd.net'', [''Brandeis'']),
      (''sabina.turov@nisd.net'', [''Brandeis'']),
      (''dora.salazar@nisd.net'', [''Brennan'']),
      (''elizabeth.rockgutierrez@nisd.net'', [''Clark'']),
      (''karen.pumphrey@nisd.net'', [''Clark'']),
      (''erica.koegellara@nisd.net'', [''Harlan'']),
      (''andrea.aguirre@nisd.net'', [''Harlan'']),
      (''eva.longoria@nisd.net'', [''Health Careers'', ''Excel'', ''Holmgreen'']),
      (''leticia.lerma@nisd.net'', [''Holmes'']),
      (''demi.cruz@nisd.net'', [''Holmes'']),
      (''erin.ramos@nisd.net'', [''Jay'']),
      (''richard.ramos@nisd.net'', [''Jay'']),
      (''kayla.webb@nisd.net'', [''Marshall'']),
      (''shelley.stogsdill@nisd.net'', [''Marshall'']),
      (''anita.packen@nisd.net'', [''O'' @ [CHR 0x27] @ ''Connor'']),
      (''mike.mcnierney@nisd.net'', [''O'' @ [CHR 0x27] @ ''Connor'']),
      (''linda.rodriguez@nisd.net'',
         [''Brandeis'', ''Brennan'', ''Clark'', ''Harlan'', ''Holmgreen'',
          ''Health Careers'', ''Excel'', ''Holmes'', ''Jay'', ''Marshall'',
          ''O'' @ [CHR 0x27] @ ''Connor'', ''NAHS'', ''Sotomayor'', ''Stevens'', ''Taft'',
          ''Warren'', ''Reddix'']),
      (''javonne.collier@nisd.net'', [''Sotomayor'']),
      (''claudia.justice@nisd.net'', [''Stevens'']),
      (''ariel.hill@nisd.net'', [''Stevens'']),
      (''jasmine-1.flores@nisd.net'', [''Taft'']),
      (''judy.harlin-alamo@nisd.net'', [''Taft'']),
      (''stephanie.lucero-moncada@nisd.net'', [''Warren'']),
      (''jace.pierson@nisd.net'', [''Warren'']),
      (''mark.marcinik@nisd.net'', [''Reddix'']),
      (''lizeth.herrera@nisd.net'', [''Reddix''])]"

definition CONFIG :: config where
  "CONFIG =
     \<lparr> SPREADSHEET_ID = ''1SxbUOEIaogQyy66E4fvLcIqblGnvueduSaYz1ftsAEA'',
       SHEET_NAME = ''CURRENT CASELOAD'',
       CAMPUS_COLUMN = ''HOME CAMPUS'',
       DATE_COLUMNS = [''ENTRY DATE'', ''ESCHOOL '', ''LAST ARD'', ''DATA SHARED'', ''IEP SHARED''],
       COLUMNS_TO_REMOVE = [7, 8, 9, 12, 13, 14],
       DATE_FORMAT = ''MM/dd/yy'',
       USER_PERMISSIONS_DURATION = 5 * 60,
       DATA_CACHE_DURATION = 2 * 60,
       PREFIX = ''nahs_caseload_'',
       ALLOWED_DOMAIN = ''@nisd.net'',
       FULL_ACCESS_CAMPUS_COUNT = 17,
       CAMPUSES = all_campuses,
       LEGACY_EMAIL_CAMPUS_MAPPING = map_of mapping_entries \<rparr>"

definition INVALID_EMAIL :: string where
  "INVALID_EMAIL = ''Invalid email format provided''"

definition PERMISSION_ERROR :: string where
  "PERMISSION_ERROR = ''Error checking user permissions''"

section \<open>UserService.validateUserEmail\<close>

text \<open>The class \<^verbatim>\<open>\s\<close> on code units below 256: tab to carriage return, space, no-break space.\<close>

definition is_space :: "char \<Rightarrow> bool" where
  "is_space c = (of_char c \<in> {9, 10, 11, 12, 13, 32, 160 :: nat})"

text \<open>The class \<^verbatim>\<open>[^\s@]\<close>.\<close>

definition addr_char :: "char \<Rightarrow> bool" where
  "addr_char c = (\<not> is_space c \<and> c \<noteq> CHR ''@'')"

text \<open>
  \<^verbatim>\<open>/^[^\s@]+@[^\s@]+\.[^\s@]+$/.test(s)\<close>. The class excludes the at sign, so the local part
  is the longest run of class characters at the start and the next character has to be
  the at sign; the rest has to consist of class characters and hold a dot that is neither
  its first nor its last character.
\<close>

definition emailRegex_test :: "string \<Rightarrow> bool" where
  "emailRegex_test s =
     (takeWhile addr_char s \<noteq> [] \<and>
      (case dropWhile addr_char s of
         [] \<Rightarrow> False
       | c # d \<Rightarrow> c = CHR ''@'' \<and> list_all addr_char d \<and> CHR ''.'' \<in> set (butlast (tl d))))"

text \<open>
  The language of the regular expression, stated directly: a split of the whole string
  into three non-empty runs of class characters around an at sign and a dot.
\<close>

definition emailRegex_lang :: "string \<Rightarrow> bool" where
  "emailRegex_lang s =
     (\<exists>a b c. s = a @ ''@'' @ b @ ''.'' @ c \<and> a \<noteq> [] \<and> b \<noteq> [] \<and> c \<noteq> [] \<and>
        list_all addr_char a \<and> list_all addr_char b \<and> list_all addr_char c)"

text \<open>
  The logger calls of the source are left out of every function below: \<^verbatim>\<open>AppLogger.log\<close>
  catches its own failures and returns nothing. The handler of \<^verbatim>\<open>validateUserEmail\<close>
  returns false; no operation of its body raises on the values modelled.
\<close>

definition validateUserEmail :: "config \<Rightarrow> jsval \<Rightarrow> bool" where
  "validateUserEmail cfg mail =
     (if \<not> truthy mail \<or> typeof mail \<noteq> ''string'' then False
      else if \<not> endsWith (toString mail) (ALLOWED_DOMAIN cfg) then False
      else if \<not> emailRegex_test (toString mail) then False
      else True)"

section \<open>The platform and the state of one request\<close>

text \<open>
  A permission record, as \<^verbatim>\<open>loadUserPermissionsFromConfig\<close> builds it. The record of an
  identity that is not in the table has no \<^verbatim>\<open>lastUpdated\<close> property.
\<close>

record permissions =
  email :: string
  campuses :: "string list"
  hasAccess :: bool
  isFullAccess :: bool
  role :: string
  lastUpdated :: "string option"

text \<open>The clock: what \<^verbatim>\<open>new Date()\<close> holds, in UTC.\<close>

record datetime =
  year :: int
  month :: nat
  day :: nat
  hours :: nat
  minutes :: nat
  seconds :: nat
  millis :: nat

definition pad2 :: "nat \<Rightarrow> string" where
  "pad2 n = [digit_char (n div 10 mod 10), digit_char (n mod 10)]"

definition pad3 :: "nat \<Rightarrow> string" where
  "pad3 n = digit_char (n div 100 mod 10) # pad2 n"

definition pad4 :: "nat \<Rightarrow> string" where
  "pad4 n = digit_char (n div 1000 mod 10) # pad3 n"

definition pad6 :: "nat \<Rightarrow> string" where
  "pad6 n = digit_char (n div 100000 mod 10) # digit_char (n div 10000 mod 10) # pad4 n"

text \<open>
  \<^verbatim>\<open>Date.prototype.toISOString\<close>: four year digits for the years 0 to 9999, a sign and six
  digits for the others.
\<close>

definition toISOString :: "datetime \<Rightarrow> string" where
  "toISOString d =
     (if 0 \<le> year d \<and> year d \<le> 9999 then pad4 (nat (year d))
      else (if year d < 0 then ''-'' else ''+'') @ pad6 (nat \<bar>year d\<bar>))
     @ ''-'' @ pad2 (month d) @ ''-'' @ pad2 (day d) @ ''T'' @ pad2 (hours d) @ '':''
     @ pad2 (minutes d) @ '':'' @ pad2 (seconds d) @ ''.'' @ pad3 (millis d) @ ''Z''"

type_synonym grid = "jsval list list"

type_synonym script_cache = "string \<rightharpoonup> string"

text \<open>
  What the services outside the sources answer during one request. Each call that can
  raise has its outcome here, \<open>Inl\<close> for the thrown value.
  \<^item> Google Apps Script: the session's email, whether the script cache's \<^verbatim>\<open>get\<close>,
    \<^verbatim>\<open>put\<close> and \<^verbatim>\<open>remove\<close> raise, \<^verbatim>\<open>SpreadsheetApp.openById\<close> (a spreadsheet maps a
    sheet name to the outcome of reading its values, \<open>None\<close> for no such sheet), the
    clock, and the text of \<^verbatim>\<open>Math.random().toString(36)\<close>.
  \<^item> JSON: \<^verbatim>\<open>JSON.parse\<close> of a cached permission entry, \<^verbatim>\<open>JSON.stringify\<close> of a
    permission record and of a non-empty grid.
  \<^item> \<^verbatim>\<open>DataService.js\<close> is not among the sources; the answers of its methods are
    inputs: \<^verbatim>\<open>initializeSpreadsheet\<close> (the thrown value, if any),
    \<^verbatim>\<open>getDataStatistics\<close> (the \<^verbatim>\<open>error\<close> property of the object returned),
    \<^verbatim>\<open>getCachedDataForUser\<close> (\<open>None\<close> for null) and \<^verbatim>\<open>clearDataCache\<close> (the thrown
    value, if any, and the script cache it leaves).
\<close>

record env =
  Session_getEmail :: "exn + string"
  cache_get_error :: "exn option"
  cache_put_error :: "exn option"
  cache_remove_error :: "exn option"
  openById :: "string \<Rightarrow> exn + (string \<Rightarrow> (exn + grid) option)"
  Date_now :: datetime
  Math_random_36 :: string
  JSON_parse :: "string \<Rightarrow> exn + permissions"
  JSON_stringify :: "permissions \<Rightarrow> string"
  JSON_stringify_grid :: "grid \<Rightarrow> string"
  initializeSpreadsheet :: "exn option"
  getDataStatistics :: "exn + jsval"
  getCachedDataForUser :: "string \<Rightarrow> exn + grid option"
  clearDataCache :: "string \<Rightarrow> script_cache \<Rightarrow> exn option \<times> script_cache"

text \<open>What a request can change: the configuration object and the script cache.\<close>

record world =
  config :: config
  cache :: script_cache

definition cache_get :: "env \<Rightarrow> world \<Rightarrow> string \<Rightarrow> exn + string option" where
  "cache_get e w k = (case cache_get_error e of Some x \<Rightarrow> Inl x | None \<Rightarrow> Inr (cache w k))"

definition cache_put :: "env \<Rightarrow> world \<Rightarrow> string \<Rightarrow> string \<Rightarrow> exn + world" where
  "cache_put e w k v =
     (case cache_put_error e of Some x \<Rightarrow> Inl x | None \<Rightarrow> Inr (w\<lparr>cache := (cache w)(k \<mapsto> v)\<rparr>))"

definition cache_remove :: "env \<Rightarrow> world \<Rightarrow> string \<Rightarrow> exn + world" where
  "cache_remove e w k =
     (case cache_remove_error e of Some x \<Rightarrow> Inl x | None \<Rightarrow> Inr (w\<lparr>cache := (cache w)(k := None)\<rparr>))"

section \<open>UserService.js\<close>

definition getCurrentUserEmail :: "env \<Rightarrow> exn + string" where
  "getCurrentUserEmail e =
     (case Session_getEmail e of
        Inr mail \<Rightarrow> Inr mail
      | Inl error \<Rightarrow>
          Inl (createError PERMISSION_ERROR (Some error) ''UserService.getCurrentUserEmail''))"

text \<open>
  The table is read with \<^verbatim>\<open>CONFIG.LEGACY_EMAIL_CAMPUS_MAPPING[email]\<close>; an array is truthy,
  also when empty. The method is reached only from \<^verbatim>\<open>getUserPermissions\<close>, after the
  validation, so the key ends with the domain and names no inherited property of the
  object. Nothing in its body raises, so its rethrowing handler is not a branch.
\<close>

definition loadUserPermissionsFromConfig :: "env \<Rightarrow> config \<Rightarrow> string \<Rightarrow> permissions" where
  "loadUserPermissionsFromConfig e cfg mail =
     (case LEGACY_EMAIL_CAMPUS_MAPPING cfg mail of
        None \<Rightarrow>
          \<lparr> email = mail, campuses = [], hasAccess = False, isFullAccess = False,
            role = ''none'', lastUpdated = None \<rparr>
      | Some campusList \<Rightarrow>
          (let full = (length campusList \<ge> FULL_ACCESS_CAMPUS_COUNT cfg) in
           \<lparr> email = mail, campuses = campusList, hasAccess = True, isFullAccess = full,
             role = (if full then ''administrator'' else ''coordinator''),
             lastUpdated = Some (toISOString (Date_now e)) \<rparr>))"

definition permissions_key :: "config \<Rightarrow> string \<Rightarrow> string" where
  "permissions_key cfg mail = PREFIX cfg @ ''permissions_'' @ mail"

text \<open>The miss path: resolve from the table, then try to cache; a failed write is dropped.\<close>

definition load_and_cache :: "env \<Rightarrow> world \<Rightarrow> string \<Rightarrow> string \<Rightarrow> permissions \<times> world" where
  "load_and_cache e w cacheKey mail =
     (let perms = loadUserPermissionsFromConfig e (config w) mail in
      case cache_put e w cacheKey (JSON_stringify e perms) of
        Inr w' \<Rightarrow> (perms, w')
      | Inl cacheError \<Rightarrow> (perms, w))"

text \<open>The body of the \<^verbatim>\<open>try\<close> of \<^verbatim>\<open>getUserPermissions\<close>.\<close>

definition getUserPermissions_try :: "env \<Rightarrow> world \<Rightarrow> jsval \<Rightarrow> (exn + permissions) \<times> world" where
  "getUserPermissions_try e w mail =
     (if \<not> validateUserEmail (config w) mail then (Inl (Error INVALID_EMAIL), w)
      else
        (let cacheKey = permissions_key (config w) (toString mail) in
         case cache_get e w cacheKey of
           Inl error \<Rightarrow> (Inl error, w)
         | Inr (Some (c # cs)) \<Rightarrow>
             (case JSON_parse e (c # cs) of
                Inl error \<Rightarrow> (Inl error, w)
              | Inr perms \<Rightarrow> (Inr perms, w))
         | Inr _ \<Rightarrow>
             (case load_and_cache e w cacheKey (toString mail) of
                (perms, w') \<Rightarrow> (Inr perms, w'))))"

definition getUserPermissions :: "env \<Rightarrow> world \<Rightarrow> jsval \<Rightarrow> (exn + permissions) \<times> world" where
  "getUserPermissions e w mail =
     (case getUserPermissions_try e w mail of
        (Inr perms, w') \<Rightarrow> (Inr perms, w')
      | (Inl error, w') \<Rightarrow>
          (Inl (createError PERMISSION_ERROR (Some error) ''UserService.getUserPermissions''), w'))"

definition hasAccessToCampus :: "env \<Rightarrow> world \<Rightarrow> jsval \<Rightarrow> string \<Rightarrow> bool \<times> world" where
  "hasAccessToCampus e w mail campus =
     (case getUserPermissions e w mail of
        (Inr perms, w') \<Rightarrow> (hasAccess perms \<and> campus \<in> set (campuses perms), w')
      | (Inl error, w') \<Rightarrow> (False, w'))"

text \<open>\<^verbatim>\<open>UserService.clearUserCache\<close>: a failed removal is dropped.\<close>

definition UserService_clearUserCache :: "env \<Rightarrow> world \<Rightarrow> string \<Rightarrow> world" where
  "UserService_clearUserCache e w mail =
     (case cache_remove e w (permissions_key (config w) mail) of
        Inr w' \<Rightarrow> w'
      | Inl error \<Rightarrow> w)"

section \<open>The API functions\<close>

text \<open>
  \<^verbatim>\<open>generateErrorId\<close>: the ISO text of the clock without its separators, cut to 14
  characters, and characters 2 to 7 of the base-36 text of the random number.
\<close>

definition generateErrorId :: "env \<Rightarrow> string" where
  "generateErrorId e =
     (let timestamp = take 14 (filter (\<lambda>c. c \<notin> set ''-:T.'') (toISOString (Date_now e)));
          random = take 6 (drop 2 (Math_random_36 e))
      in ''ERR_'' @ timestamp @ ''_'' @ random)"

text \<open>
  Modelled from the spec: \<^verbatim>\<open>ErrorUtils\<close> is not among the sources. Section 6 gives the
  shape of a status response, and section 7 says that a failure on the data path is
  converted with a generated error id that is only recorded; the test suite checks
  \<^verbatim>\<open>success\<close> and \<^verbatim>\<open>message\<close>. Neither function raises.
\<close>

record response =
  success :: bool
  response_message :: string
  errorId :: "string option"
  timestamp :: string

definition handleException :: "env \<Rightarrow> exn \<Rightarrow> string \<Rightarrow> response" where
  "handleException e error ctx =
     \<lparr> success = False, response_message = message error,
       errorId = Some (generateErrorId e), timestamp = toISOString (Date_now e) \<rparr>"

definition createSuccessResponse :: "env \<Rightarrow> string \<Rightarrow> response" where
  "createSuccessResponse e msg =
     \<lparr> success = True, response_message = msg, errorId = None,
       timestamp = toISOString (Date_now e) \<rparr>"

text \<open>
  The body of the \<^verbatim>\<open>try\<close> of \<^verbatim>\<open>filterCaseloadData\<close>: the serialized grid, or the thrown
  value. \<^verbatim>\<open>JSON.stringify([])\<close> is the text \<^verbatim>\<open>[]\<close>. The script cache is left out of
  the result: the function returns the text only.
\<close>

definition filterCaseloadData_try :: "env \<Rightarrow> world \<Rightarrow> exn + string" where
  "filterCaseloadData_try e w =
     (case getCurrentUserEmail e of
        Inl error \<Rightarrow> Inl error
      | Inr userEmail \<Rightarrow>
          if userEmail = [] then Inl (Error ''Unable to identify current user'')
          else if \<not> validateUserEmail (config w) (JStr userEmail) then Inr ''[]''
          else
            (case getUserPermissions e w (JStr userEmail) of
               (Inl error, w') \<Rightarrow> Inl error
             | (Inr perms, w') \<Rightarrow>
                 if \<not> hasAccess perms then Inr ''[]''
                 else
                   (case getCachedDataForUser e userEmail of
                      Inl error \<Rightarrow> Inl error
                    | Inr None \<Rightarrow> Inr ''[]''
                    | Inr (Some []) \<Rightarrow> Inr ''[]''
                    | Inr (Some (r # rs)) \<Rightarrow> Inr (JSON_stringify_grid e (r # rs)))))"

text \<open>
  The handler builds the error response, records the failed attempt and returns the
  empty grid; it raises nothing.
\<close>

definition filterCaseloadData :: "env \<Rightarrow> world \<Rightarrow> exn + string" where
  "filterCaseloadData e w =
     (case filterCaseloadData_try e w of
        Inr json \<Rightarrow> Inr json
      | Inl error \<Rightarrow>
          (let errorResponse = handleException e error ''filterCaseloadData'' in Inr ''[]''))"

definition clearUserCache :: "env \<Rightarrow> world \<Rightarrow> response \<times> world" where
  "clearUserCache e w =
     (case getCurrentUserEmail e of
        Inl error \<Rightarrow> (handleException e error ''clearUserCache'', w)
      | Inr userEmail \<Rightarrow>
          if userEmail = [] then
            (handleException e (Error ''Unable to identify current user'') ''clearUserCache'', w)
          else
            (let w1 = UserService_clearUserCache e w userEmail in
             case clearDataCache e userEmail (cache w1) of
               (Some error, c) \<Rightarrow> (handleException e error ''clearUserCache'', w1\<lparr>cache := c\<rparr>)
             | (None, c) \<Rightarrow>
                 (createSuccessResponse e ''Cache cleared successfully'', w1\<lparr>cache := c\<rparr>)))"

record health_tests =
  spreadsheetAccess :: bool
  userService :: bool
  cacheService :: bool
  dataProcessing :: bool

record health_status =
  status :: string
  health_timestamp :: string
  tests :: health_tests
  version :: string
  environment :: string

text \<open>
  \<^verbatim>\<open>healthCheck\<close>. Each probe has its own handler, which leaves the flag false. The cache
  probe is one \<^verbatim>\<open>put\<close> of the key \<^verbatim>\<open>health_test\<close>; it reads nothing back. The outer handler
  (status \<^verbatim>\<open>unhealthy\<close>) covers the clock and the logger, which raise nothing here. The
  \<^verbatim>\<open>duration\<close> property, a difference of two clock readings, is left out.
\<close>

definition healthCheck :: "env \<Rightarrow> world \<Rightarrow> health_status \<times> world" where
  "healthCheck e w =
     (let t1 = (case initializeSpreadsheet e of None \<Rightarrow> True | Some error \<Rightarrow> False);
          t2 = (case getCurrentUserEmail e of Inr userEmail \<Rightarrow> userEmail \<noteq> [] | Inl error \<Rightarrow> False);
          (t3, w') = (case cache_put e w ''health_test'' ''test'' of
                        Inr w' \<Rightarrow> (True, w')
                      | Inl error \<Rightarrow> (False, w));
          t4 = (case getDataStatistics e of Inr err \<Rightarrow> \<not> truthy err | Inl error \<Rightarrow> False);
          allTestsPassed = list_all (\<lambda>test. test = True) [t1, t2, t3, t4]
      in (\<lparr> status = (if allTestsPassed then ''healthy'' else ''degraded''),
            health_timestamp = toISOString (Date_now e),
            tests = \<lparr> spreadsheetAccess = t1, userService = t2, cacheService = t3,
                      dataProcessing = t4 \<rparr>,
            version = ''2.0.0'', environment = ''production'' \<rparr>, w'))"

text \<open>
  The validation block of \<^verbatim>\<open>updateSpreadsheetConfig\<close>: open the spreadsheet, find the
  sheet, read its values.
\<close>

definition test_access :: "env \<Rightarrow> string \<Rightarrow> string \<Rightarrow> exn + unit" where
  "test_access e newSpreadsheetId newSheetName =
     (case openById e newSpreadsheetId of
        Inl error \<Rightarrow> Inl error
      | Inr testSpreadsheet \<Rightarrow>
          (case testSpreadsheet newSheetName of
             None \<Rightarrow>
               Inl (Error (''Sheet '' @ [CHR 0x22] @ newSheetName @ [CHR 0x22]
                            @ '' not found in the specified spreadsheet''))
           | Some (Inl error) \<Rightarrow> Inl error
           | Some (Inr testData) \<Rightarrow>
               if testData = [] then Inl (Error ''No data found in the specified sheet'')
               else Inr ()))"

record update_response =
  update_success :: bool
  update_message :: string
  currentSpreadsheetId :: "string option"
  newSpreadsheetId :: "string option"
  updatedBy :: "string option"
  update_errorId :: "string option"
  update_timestamp :: string

definition manual_update_message :: "string \<Rightarrow> string \<Rightarrow> string" where
  "manual_update_message old new =
     ''Validation successful! To complete the update, please modify ''
     @ ''CONFIG.SPREADSHEET.SPREADSHEET_ID in Config.js from '' @ [CHR 0x22] @ old
     @ [CHR 0x22] @ '' to '' @ [CHR 0x22] @ new @ [CHR 0x22]"

text \<open>
  The body of the \<^verbatim>\<open>try\<close> of \<^verbatim>\<open>updateSpreadsheetConfig\<close>; the sheet name is \<open>None\<close> when
  the caller leaves the argument out.
\<close>

definition updateSpreadsheetConfig_try ::
  "env \<Rightarrow> world \<Rightarrow> string \<Rightarrow> string option \<Rightarrow> (exn + update_response) \<times> world" where
  "updateSpreadsheetConfig_try e w newId sheetArg =
     (let newSheetName = (case sheetArg of None \<Rightarrow> ''CURRENT CASELOAD'' | Some n \<Rightarrow> n) in
      case getCurrentUserEmail e of
        Inl error \<Rightarrow> (Inl error, w)
      | Inr currentUserEmail \<Rightarrow>
          if \<not> includes_str currentUserEmail ''alvaro.gomez@nisd.net'' \<and>
             \<not> includes_str currentUserEmail ''linda.rodriguez@nisd.net''
          then (Inl (Error (''Unauthorized: Only administrators can update ''
                            @ ''spreadsheet configuration'')), w)
          else
            (case test_access e newId newSheetName of
               Inl testError \<Rightarrow>
                 (Inl (Error (''Cannot access new spreadsheet: '' @ message testError)), w)
             | Inr u \<Rightarrow>
                 (case clearUserCache e w of
                    (cleared, w') \<Rightarrow>
                      (Inr \<lparr> update_success = True,
                             update_message =
                               manual_update_message (SPREADSHEET_ID (config w')) newId,
                             currentSpreadsheetId = Some (SPREADSHEET_ID (config w')),
                             newSpreadsheetId = Some newId,
                             updatedBy = Some currentUserEmail,
                             update_errorId = None,
                             update_timestamp = toISOString (Date_now e) \<rparr>, w'))))"

definition updateSpreadsheetConfig ::
  "env \<Rightarrow> world \<Rightarrow> string \<Rightarrow> string option \<Rightarrow> update_response \<times> world" where
  "updateSpreadsheetConfig e w newId sheetArg =
     (case updateSpreadsheetConfig_try e w newId sheetArg of
        (Inr r, w') \<Rightarrow> (r, w')
      | (Inl error, w') \<Rightarrow>
          (\<lparr> update_success = False, update_message = message error,
             currentSpreadsheetId = None, newSpreadsheetId = None, updatedBy = None,
             update_errorId = Some (generateErrorId e),
             update_timestamp = toISOString (Date_now e) \<rparr>, w'))"

section \<open>Column removal\<close>

text \<open>
  Modelled from the spec: \<^verbatim>\<open>DataService.removeColumns\<close>, to which the API function
  \<^verbatim>\<open>removeColumns\<close> delegates, is not among the sources. Section 4.3 removes the
  configured indices from every row in descending index order; the test suite's column
  removal simulation does the same with a copy of the index list sorted by
  \<^verbatim>\<open>(a, b) => b - a\<close> and one \<^verbatim>\<open>splice(colIndex, 1)\<close> per index, which removes nothing
  when the index is past the end of the row.
\<close>

definition splice1 :: "nat \<Rightarrow> 'a list \<Rightarrow> 'a list" where
  "splice1 colIndex row = take colIndex row @ drop (Suc colIndex) row"

definition sortedColumns :: "nat list \<Rightarrow> nat list" where
  "sortedColumns columnsToRemove = rev (sort columnsToRemove)"

definition removeColumns_row :: "'a list \<Rightarrow> nat list \<Rightarrow> 'a list" where
  "removeColumns_row row columnIndexes =
     foldl (\<lambda>newRow colIndex. splice1 colIndex newRow) row (sortedColumns columnIndexes)"

definition removeColumns :: "'a list list \<Rightarrow> nat list \<Rightarrow> 'a list list" where
  "removeColumns data columnIndexes = map (\<lambda>row. removeColumns_row row columnIndexes) data"

section \<open>The error identifier format and sample inputs\<close>

definition is_digit :: "char \<Rightarrow> bool" where
  "is_digit c = (48 \<le> (of_char c :: nat) \<and> (of_char c :: nat) \<le> 57)"

definition is_alnum :: "char \<Rightarrow> bool" where
  "is_alnum c =
     (is_digit c \<or> (65 \<le> (of_char c :: nat) \<and> (of_char c :: nat) \<le> 90)
      \<or> (97 \<le> (of_char c :: nat) \<and> (of_char c :: nat) \<le> 122))"

text \<open>
  The format \<^verbatim>\<open>ERR_<14-digit-timestamp>_<6-char-random>\<close> of section 6, read as a check on
  a string: 25 characters, the prefix, 14 digits, an underscore, 6 letters or digits.
\<close>

definition error_id_format :: "string \<Rightarrow> bool" where
  "error_id_format s =
     (length s = 25 \<and> take 4 s = ''ERR_'' \<and> list_all is_digit (take 14 (drop 4 s)) \<and>
      take 1 (drop 18 s) = ''_'' \<and> list_all is_alnum (drop 19 s))"

text \<open>
  A request on 6 August 2025, noon UTC, by the identity with all 17 campuses, with every
  service answering and an empty script cache. The candidate spreadsheet \<^verbatim>\<open>2025\<close> has
  the sheet \<^verbatim>\<open>CURRENT CASELOAD\<close> with a header row, which is also the data fetched and
  serialized; the text of a serialized permission record is a stand-in.
\<close>

definition sample_now :: datetime where
  "sample_now = \<lparr> year = 2025, month = 8, day = 6, hours = 12, minutes = 0, seconds = 0,
                  millis = 0 \<rparr>"

definition sample_env :: env where
  "sample_env =
     \<lparr> Session_getEmail = Inr ''linda.rodriguez@nisd.net'',
       cache_get_error = None,
       cache_put_error = None,
       cache_remove_error = None,
       openById = (\<lambda>spreadsheetId.
          if spreadsheetId = ''2025''
          then Inr (\<lambda>name. if name = ''CURRENT CASELOAD''
                             then Some (Inr [[JStr ''NAME'', JStr ''HOME CAMPUS'']]) else None)
          else Inl (Error ''Document is missing'')),
       Date_now = sample_now,
       Math_random_36 = ''0.4fzyo82mvyr'',
       JSON_parse = (\<lambda>text. Inl (Error ''Unexpected token'')),
       JSON_stringify = (\<lambda>perms. ''{}''),
       JSON_stringify_grid = (\<lambda>data.
          ''[['' @ [CHR 0x22] @ ''NAME'' @ [CHR 0x22] @ '','' @ [CHR 0x22] @ ''HOME CAMPUS''
          @ [CHR 0x22] @ '']]''),
       initializeSpreadsheet = None,
       getDataStatistics = Inr JUndefined,
       getCachedDataForUser = (\<lambda>mail. Inr (Some [[JStr ''NAME'', JStr ''HOME CAMPUS'']])),
       clearDataCache = (\<lambda>mail c. (None, c)) \<rparr>"

definition sample_world :: world where
  "sample_world = \<lparr> config = CONFIG, cache = Map.empty \<rparr>"

section \<open>Properties\<close>

lemma validateUserEmail_iff:
  "validateUserEmail cfg v \<longleftrightarrow>
     (\<exists>s. v = JStr s \<and> s \<noteq> [] \<and> suffix (ALLOWED_DOMAIN cfg) s \<and> emailRegex_test s)"
  by (cases v) (auto simp: validateUserEmail_def endsWith_def)

subsection \<open>Column removal\<close>

lemma nths_cong_len:
  assumes "\<And>j. j < length xs \<Longrightarrow> j \<in> A \<longleftrightarrow> j \<in> B"
  shows "nths xs A = nths xs B"
proof -
  have "filter (\<lambda>p. snd p \<in> A) (zip xs [0..<length xs])
      = filter (\<lambda>p. snd p \<in> B) (zip xs [0..<length xs])"
    by (rule filter_cong) (auto simp: set_zip assms)
  then show ?thesis by (simp add: nths_def)
qed

text \<open>One splice above every index still to be removed deletes exactly that cell.\<close>

lemma splice1_nths:
  assumes "\<forall>j\<in>A. j < i"
  shows "nths (splice1 i row) (- A) = nths row (- insert i A)"
proof (cases "i < length row")
  case False
  then have "splice1 i row = row" by (simp add: splice1_def)
  moreover have "nths row (- A) = nths row (- insert i A)"
    using False by (intro nths_cong_len) auto
  ultimately show ?thesis by simp
next
  case True
  have len: "length (take i row) = i" using True by simp
  have A: "\<And>j. j + i \<notin> A" "\<And>j. Suc (j + i) \<notin> A"
    using assms by fastforce+
  have l: "nths (splice1 i row) (- A) = nths (take i row) (- A) @ drop (Suc i) row"
    unfolding splice1_def nths_append len using A by (simp add: nths_all)
  have "row = take i row @ (row ! i # drop (Suc i) row)"
    using True by (simp add: id_take_nth_drop)
  then have "nths row (- insert i A)
      = nths (take i row @ (row ! i # drop (Suc i) row)) (- insert i A)" by simp
  also have "\<dots> = nths (take i row) (- insert i A) @ drop (Suc i) row"
    unfolding nths_append len using A by (simp add: nths_Cons nths_all)
  also have "nths (take i row) (- insert i A) = nths (take i row) (- A)"
    by (intro nths_cong_len) auto
  finally show ?thesis using l by simp
qed

lemma foldl_splice1_descending:
  "sorted (rev ds) \<Longrightarrow> distinct ds \<Longrightarrow>
   foldl (\<lambda>newRow colIndex. splice1 colIndex newRow) row ds = nths row (- set ds)"
proof (induction ds arbitrary: row)
  case Nil
  then show ?case by (simp add: nths_all)
next
  case (Cons d ds)
  have le: "\<forall>j\<in>set ds. j \<le> d" using Cons.prems(1) by (simp add: sorted_append)
  have "d \<notin> set ds" using Cons.prems(2) by simp
  with le have lt: "\<forall>j\<in>set ds. j < d" by (metis le_neq_implies_less)
  have "foldl (\<lambda>newRow colIndex. splice1 colIndex newRow) row (d # ds)
      = nths (splice1 d row) (- set ds)"
    using Cons by (simp add: sorted_append)
  also have "\<dots> = nths row (- insert d (set ds))"
    using lt by (rule splice1_nths)
  finally show ?case by simp
qed

lemma removeColumns_row_nths:
  "distinct cols \<Longrightarrow> removeColumns_row row cols = nths row (- set cols)"
  using foldl_splice1_descending[of "sortedColumns cols" row]
  by (simp add: removeColumns_row_def sortedColumns_def)

lemma list_of_length_15:
  assumes "length (row :: 'a list) = 15"
  shows "row = [row ! 0, row ! 1, row ! 2, row ! 3, row ! 4, row ! 5, row ! 6, row ! 7,
                row ! 8, row ! 9, row ! 10, row ! 11, row ! 12, row ! 13, row ! 14]"
  using assms by (auto simp: list_eq_iff_nth_eq less_Suc_eq numeral_eq_Suc Let_def)

lemma removeColumns_row_configured:
  "removeColumns_row [a0, a1, a2, a3, a4, a5, a6, a7, a8, a9, a10, a11, a12, a13, a14]
     [7, 8, 9, 12, 13, 14] = [a0, a1, a2, a3, a4, a5, a6, a10, a11]"
  by (simp add: removeColumns_row_def sortedColumns_def splice1_def)

text \<open>
  C3. Column removal is index-stable. For an index list without repetitions, every row
  of the result holds exactly the cells of the original row whose index is not in the
  list, in their original order (\<open>nths row I\<close> is the sublist of the cells at the indices
  in \<open>I\<close>); indices past the end of a row remove nothing. For the configured list
  \<^verbatim>\<open>[7, 8, 9, 12, 13, 14]\<close>, a row of 15 columns keeps its columns 0 to 6, 10 and 11.
\<close>

theorem removeColumns_index_stable:
  "(distinct columnIndexes \<longrightarrow>
      removeColumns data columnIndexes
        = map (\<lambda>row. nths row {i. i \<notin> set columnIndexes}) data) \<and>
   (length row = 15 \<longrightarrow>
      removeColumns_row row (COLUMNS_TO_REMOVE CONFIG)
        = [row ! 0, row ! 1, row ! 2, row ! 3, row ! 4, row ! 5, row ! 6, row ! 10, row ! 11])"
proof (intro conjI impI)
  assume "distinct columnIndexes"
  then have eq: "\<And>r. removeColumns_row r columnIndexes = nths r {i. i \<notin> set columnIndexes}"
    by (simp add: removeColumns_row_nths Compl_eq)
  show "removeColumns data columnIndexes
      = map (\<lambda>row. nths row {i. i \<notin> set columnIndexes}) data"
    by (simp add: removeColumns_def eq)
next
  assume "length row = 15"
  then have "row = [row ! 0, row ! 1, row ! 2, row ! 3, row ! 4, row ! 5, row ! 6, row ! 7,
                row ! 8, row ! 9, row ! 10, row ! 11, row ! 12, row ! 13, row ! 14]"
    by (rule list_of_length_15)
  then have "removeColumns_row row [7, 8, 9, 12, 13, 14]
      = [row ! 0, row ! 1, row ! 2, row ! 3, row ! 4, row ! 5, row ! 6, row ! 10, row ! 11]"
    using removeColumns_row_configured by metis
  then show "removeColumns_row row (COLUMNS_TO_REMOVE CONFIG)
      = [row ! 0, row ! 1, row ! 2, row ! 3, row ! 4, row ! 5, row ! 6, row ! 10, row ! 11]"
    by (simp add: CONFIG_def)
qed

theorem removeColumns_index_stable_witness:
  "distinct [7, 8, 9, 12, 13, 14 :: nat] \<and>
   removeColumns [''ABCDEFGHIJKLMNO'', ''abcdefghijklmno''] [7, 8, 9, 12, 13, 14]
     = [''ABCDEFGKL'', ''abcdefgkl''] \<and>
   length ''ABCDEFGHIJKLMNO'' = 15 \<and>
   removeColumns_row ''ABCDEFGHIJKLMNO'' (COLUMNS_TO_REMOVE CONFIG) = ''ABCDEFGKL''"
  using removeColumns_index_stable
          [of "[7, 8, 9, 12, 13, 14]" "[''ABCDEFGHIJKLMNO'', ''abcdefghijklmno'']"
              "''ABCDEFGHIJKLMNO''"]
  by (simp add: nths_Cons)

subsection \<open>Identity validation\<close>

lemma addr_char_dot: "addr_char CHR ''.''"
  by (simp add: addr_char_def is_space_def)

lemma not_addr_char_at: "\<not> addr_char CHR ''@''"
  by (simp add: addr_char_def)

lemma emailRegex_lang_test:
  assumes "emailRegex_lang s"
  shows "emailRegex_test s"
proof -
  from assms obtain a b c where s: "s = a @ ''@'' @ b @ ''.'' @ c"
    and ne: "a \<noteq> []" "b \<noteq> []" "c \<noteq> []"
    and ok: "list_all addr_char a" "list_all addr_char b" "list_all addr_char c"
    unfolding emailRegex_lang_def by blast
  have tw: "takeWhile addr_char s = a"
    using ok(1) unfolding s by (simp add: list_all_iff not_addr_char_at)
  have dw: "dropWhile addr_char s = CHR ''@'' # (b @ CHR ''.'' # c)"
    using ok(1) unfolding s by (simp add: list_all_iff not_addr_char_at)
  obtain b0 b' where b: "b = b0 # b'" using ne(2) by (cases b) auto
  have "butlast (tl (b @ CHR ''.'' # c)) = b' @ CHR ''.'' # butlast c"
    using ne(3) by (simp add: b butlast_append)
  then have dot: "CHR ''.'' \<in> set (butlast (tl (b @ CHR ''.'' # c)))" by simp
  have all: "list_all addr_char (b @ CHR ''.'' # c)"
    using ok by (simp add: addr_char_dot)
  show ?thesis
    unfolding emailRegex_test_def tw dw using ne(1) dot all by simp
qed

lemma emailRegex_test_lang:
  assumes "emailRegex_test s"
  shows "emailRegex_lang s"
proof -
  let ?a = "takeWhile addr_char s"
  from assms obtain d where ne: "?a \<noteq> []"
    and dw: "dropWhile addr_char s = CHR ''@'' # d"
    and all: "list_all addr_char d"
    and dot: "CHR ''.'' \<in> set (butlast (tl d))"
    unfolding emailRegex_test_def by (auto split: list.splits)
  from dot obtain u v where uv: "butlast (tl d) = u @ CHR ''.'' # v"
    by (auto dest: split_list)
  then have tl_ne: "tl d \<noteq> []" by auto
  then obtain x where d: "d = x # tl d" by (cases d) auto
  have "tl d = butlast (tl d) @ [last (tl d)]" using tl_ne by simp
  then have tl: "tl d = u @ CHR ''.'' # v @ [last (tl d)]" using uv by simp
  have d': "d = (x # u) @ ''.'' @ (v @ [last (tl d)])"
    using d tl by simp
  have s: "s = ?a @ ''@'' @ (x # u) @ ''.'' @ (v @ [last (tl d)])"
    using takeWhile_dropWhile_id[of addr_char s] dw d' by simp
  have a_ok: "list_all addr_char ?a"
    by (simp add: list_all_iff) (meson set_takeWhileD)
  have "list_all addr_char ((x # u) @ ''.'' @ (v @ [last (tl d)]))"
    using all d' by simp
  then have "list_all addr_char (x # u)" "list_all addr_char (v @ [last (tl d)])"
    by simp_all
  with s ne a_ok show ?thesis
    unfolding emailRegex_lang_def by blast
qed

text \<open>The matcher decides the language of the regular expression.\<close>

lemma emailRegex_test_iff: "emailRegex_test s \<longleftrightarrow> emailRegex_lang s"
  using emailRegex_lang_test emailRegex_test_lang by blast

lemma emailRegex_lang_nonempty: "emailRegex_lang s \<Longrightarrow> s \<noteq> []"
  by (auto simp: emailRegex_lang_def)

text \<open>An identity is valid exactly when it is a string of the domain that matches.\<close>

lemma validateUserEmail_iff_lang:
  "validateUserEmail cfg v \<longleftrightarrow>
     (\<exists>s. v = JStr s \<and> endsWith s (ALLOWED_DOMAIN cfg) \<and> emailRegex_lang s)"
  using emailRegex_lang_nonempty
  by (auto simp: validateUserEmail_iff emailRegex_test_iff endsWith_def)

text \<open>
  C4. \<^verbatim>\<open>validateUserEmail\<close> is a total function to the booleans (no branch of it raises)
  and it fails closed: it answers false for every value that is not a string, null
  included; for every string that does not end with the configured domain; and for
  every string outside the language of the address pattern. Under the reference
  configuration, whose domain is \<^verbatim>\<open>@nisd.net\<close>, it answers false for null and for
  \<^verbatim>\<open>user@bad.com\<close>.
\<close>

theorem validateUserEmail_fails_closed:
  "(typeof v \<noteq> ''string'' \<longrightarrow> validateUserEmail cfg v = False) \<and>
   (\<not> endsWith s (ALLOWED_DOMAIN cfg) \<longrightarrow> validateUserEmail cfg (JStr s) = False) \<and>
   (\<not> emailRegex_lang t \<longrightarrow> validateUserEmail cfg (JStr t) = False) \<and>
   ALLOWED_DOMAIN CONFIG = ''@nisd.net'' \<and>
   validateUserEmail CONFIG JNull = False \<and>
   validateUserEmail CONFIG (JStr ''user@bad.com'') = False"
proof (intro conjI impI)
  assume "typeof v \<noteq> ''string''"
  then show "validateUserEmail cfg v = False"
    by (simp add: validateUserEmail_def)
next
  assume "\<not> endsWith s (ALLOWED_DOMAIN cfg)"
  then show "validateUserEmail cfg (JStr s) = False"
    by (simp add: validateUserEmail_iff_lang)
next
  assume "\<not> emailRegex_lang t"
  then show "validateUserEmail cfg (JStr t) = False"
    by (simp add: validateUserEmail_iff_lang)
next
  show "ALLOWED_DOMAIN CONFIG = ''@nisd.net''"
    by (simp add: CONFIG_def)
next
  show "validateUserEmail CONFIG JNull = False"
    by (simp add: validateUserEmail_def)
next
  show "validateUserEmail CONFIG (JStr ''user@bad.com'') = False"
    by (simp add: validateUserEmail_def CONFIG_def endsWith_def suffix_to_prefix)
qed

theorem validateUserEmail_fails_closed_witness:
  "typeof (JNum 7) \<noteq> ''string'' \<and> validateUserEmail CONFIG (JNum 7) = False \<and>
   \<not> endsWith ''user@bad.com'' (ALLOWED_DOMAIN CONFIG) \<and>
   validateUserEmail CONFIG (JStr ''user@bad.com'') = False \<and>
   \<not> emailRegex_lang ''@nisd.net'' \<and>
   validateUserEmail CONFIG (JStr ''@nisd.net'') = False"
  using validateUserEmail_fails_closed [of "JNum 7" CONFIG "''user@bad.com''" "''@nisd.net''"]
  by (simp add: emailRegex_test_iff [symmetric] emailRegex_test_def not_addr_char_at
        CONFIG_def endsWith_def suffix_to_prefix)

subsection \<open>Permission resolution\<close>

text \<open>On a cache miss a valid identity is resolved from the table and nothing is raised.\<close>

lemma getUserPermissions_miss:
  assumes valid: "validateUserEmail (config w) (JStr mail)"
    and get_ok: "cache_get_error e = None"
    and miss: "cache w (permissions_key (config w) mail) = None \<or>
               cache w (permissions_key (config w) mail) = Some []"
  shows "getUserPermissions e w (JStr mail)
       = (Inr (loadUserPermissionsFromConfig e (config w) mail),
          snd (load_and_cache e w (permissions_key (config w) mail) mail))"
  using assms
  by (auto simp: getUserPermissions_def getUserPermissions_try_def cache_get_def Let_def
        load_and_cache_def split: sum.splits option.splits list.splits prod.splits)

lemma valid_linda: "validateUserEmail CONFIG (JStr ''linda.rodriguez@nisd.net'')"
  by (simp add: validateUserEmail_def CONFIG_def endsWith_def emailRegex_test_def
        addr_char_def is_space_def suffix_to_prefix)

lemma lookup_linda:
  "LEGACY_EMAIL_CAMPUS_MAPPING CONFIG ''linda.rodriguez@nisd.net'' = Some all_campuses"
  by (simp add: CONFIG_def mapping_entries_def all_campuses_def)

lemma config_sample_world: "config sample_world = CONFIG"
  by (simp add: sample_world_def)

text \<open>
  C2. For a valid identity whose cache entry is missing (absent, or the empty string,
  which \<^verbatim>\<open>if (cached)\<close> treats alike) and a cache read that does not raise,
  \<^verbatim>\<open>getUserPermissions\<close> returns a record, and the four fields are fixed by the table
  alone, whatever the clock and the other services do: for an identity absent from the
  table no access, no full access, role \<^verbatim>\<open>none\<close>, no campuses; for an identity with list
  \<open>campusList\<close> access, that list, full access exactly when the list has at least the
  configured number of entries, and the role that follows from it. The reference
  threshold is 17.
\<close>

theorem getUserPermissions_from_table:
  assumes valid: "validateUserEmail (config w) (JStr mail)"
    and get_ok: "cache_get_error e = None"
    and miss: "cache w (permissions_key (config w) mail) = None \<or>
               cache w (permissions_key (config w) mail) = Some []"
  shows "\<exists>perms. fst (getUserPermissions e w (JStr mail)) = Inr perms \<and>
     (case LEGACY_EMAIL_CAMPUS_MAPPING (config w) mail of
        None \<Rightarrow> hasAccess perms = False \<and> isFullAccess perms = False \<and>
                 role perms = ''none'' \<and> campuses perms = []
      | Some campusList \<Rightarrow>
          hasAccess perms = True \<and> campuses perms = campusList \<and>
          isFullAccess perms = (FULL_ACCESS_CAMPUS_COUNT (config w) \<le> length campusList) \<and>
          role perms = (if isFullAccess perms then ''administrator'' else ''coordinator''))
     \<and> FULL_ACCESS_CAMPUS_COUNT CONFIG = 17"
  using getUserPermissions_miss [OF assms]
  by (auto simp: loadUserPermissionsFromConfig_def Let_def CONFIG_def split: option.splits)

theorem getUserPermissions_from_table_witness:
  "validateUserEmail (config sample_world) (JStr ''linda.rodriguez@nisd.net'') \<and>
   cache_get_error sample_env = None \<and>
   cache sample_world (permissions_key (config sample_world) ''linda.rodriguez@nisd.net'') = None \<and>
   (\<exists>perms. fst (getUserPermissions sample_env sample_world (JStr ''linda.rodriguez@nisd.net''))
        = Inr perms \<and>
      hasAccess perms = True \<and> campuses perms = all_campuses \<and> isFullAccess perms = True \<and>
      role perms = ''administrator'')"
proof -
  have v: "validateUserEmail (config sample_world) (JStr ''linda.rodriguez@nisd.net'')"
    by (simp add: config_sample_world valid_linda)
  have g: "cache_get_error sample_env = None" by (simp add: sample_env_def)
  have m: "cache sample_world (permissions_key (config sample_world) ''linda.rodriguez@nisd.net'')
             = None"
    by (simp add: sample_world_def)
  have l: "LEGACY_EMAIL_CAMPUS_MAPPING (config sample_world) ''linda.rodriguez@nisd.net''
             = Some all_campuses"
    by (simp add: config_sample_world lookup_linda)
  have n: "FULL_ACCESS_CAMPUS_COUNT (config sample_world) \<le> length all_campuses"
    by (simp add: config_sample_world CONFIG_def all_campuses_def)
  from getUserPermissions_from_table [OF v g disjI1 [OF m]] l n
  have "\<exists>perms. fst (getUserPermissions sample_env sample_world (JStr ''linda.rodriguez@nisd.net''))
        = Inr perms \<and>
      hasAccess perms = True \<and> campuses perms = all_campuses \<and> isFullAccess perms = True \<and>
      role perms = ''administrator''"
    by auto
  with v g m show ?thesis by blast
qed

subsection \<open>A failed cache write\<close>

lemma toISOString_sample_now: "toISOString sample_now = ''2025-08-06T12:00:00.000Z''"
  by (simp add: toISOString_def sample_now_def pad2_def pad3_def pad4_def digit_char_def
        char_of_eq_iff)

lemma load_linda:
  "Date_now e = sample_now \<Longrightarrow>
   loadUserPermissionsFromConfig e CONFIG ''linda.rodriguez@nisd.net''
     = \<lparr> email = ''linda.rodriguez@nisd.net'', campuses = all_campuses, hasAccess = True,
         isFullAccess = True, role = ''administrator'',
         lastUpdated = Some ''2025-08-06T12:00:00.000Z'' \<rparr>"
  by (simp add: loadUserPermissionsFromConfig_def lookup_linda toISOString_sample_now)
     (simp add: CONFIG_def all_campuses_def)

text \<open>
  C5. For a valid identity on a cache miss, when the cache write raises, the call still
  returns the freshly resolved record and raises nothing; the script cache is left as it
  was; and the value returned is the one returned when the same write succeeds.
\<close>

theorem cache_write_failure_swallowed:
  assumes valid: "validateUserEmail (config w) (JStr mail)"
    and get_ok: "cache_get_error e = None"
    and miss: "cache w (permissions_key (config w) mail) = None \<or>
               cache w (permissions_key (config w) mail) = Some []"
    and put_fails: "cache_put_error e = Some cacheError"
  shows "getUserPermissions e w (JStr mail)
           = (Inr (loadUserPermissionsFromConfig e (config w) mail), w) \<and>
         fst (getUserPermissions e w (JStr mail))
           = fst (getUserPermissions (e\<lparr>cache_put_error := None\<rparr>) w (JStr mail))"
proof -
  let ?e' = "e\<lparr>cache_put_error := None\<rparr>"
  have 1: "getUserPermissions e w (JStr mail)
      = (Inr (loadUserPermissionsFromConfig e (config w) mail), w)"
    using getUserPermissions_miss [OF valid get_ok miss] put_fails
    by (simp add: load_and_cache_def cache_put_def Let_def)
  have "cache_get_error ?e' = None" using get_ok by simp
  from getUserPermissions_miss [OF valid this miss]
  have 2: "fst (getUserPermissions ?e' w (JStr mail))
      = Inr (loadUserPermissionsFromConfig ?e' (config w) mail)" by simp
  have 3: "loadUserPermissionsFromConfig ?e' (config w) mail
      = loadUserPermissionsFromConfig e (config w) mail"
    by (simp add: loadUserPermissionsFromConfig_def split: option.splits)
  show ?thesis using 1 2 3 by simp
qed

theorem cache_write_failure_swallowed_witness:
  "validateUserEmail (config sample_world) (JStr ''linda.rodriguez@nisd.net'') \<and>
   cache_get_error (sample_env\<lparr>cache_put_error := Some (Error ''Service error'')\<rparr>) = None \<and>
   cache sample_world (permissions_key (config sample_world) ''linda.rodriguez@nisd.net'') = None \<and>
   cache_put_error (sample_env\<lparr>cache_put_error := Some (Error ''Service error'')\<rparr>)
     = Some (Error ''Service error'') \<and>
   getUserPermissions (sample_env\<lparr>cache_put_error := Some (Error ''Service error'')\<rparr>)
       sample_world (JStr ''linda.rodriguez@nisd.net'')
     = (Inr \<lparr> email = ''linda.rodriguez@nisd.net'', campuses = all_campuses, hasAccess = True,
              isFullAccess = True, role = ''administrator'',
              lastUpdated = Some ''2025-08-06T12:00:00.000Z'' \<rparr>, sample_world) \<and>
   fst (getUserPermissions sample_env sample_world (JStr ''linda.rodriguez@nisd.net''))
     = Inr \<lparr> email = ''linda.rodriguez@nisd.net'', campuses = all_campuses, hasAccess = True,
              isFullAccess = True, role = ''administrator'',
              lastUpdated = Some ''2025-08-06T12:00:00.000Z'' \<rparr>"
proof -
  let ?e = "sample_env\<lparr>cache_put_error := Some (Error ''Service error'')\<rparr>"
  have v: "validateUserEmail (config sample_world) (JStr ''linda.rodriguez@nisd.net'')"
    by (simp add: config_sample_world valid_linda)
  have g: "cache_get_error ?e = None" by (simp add: sample_env_def)
  have m: "cache sample_world (permissions_key (config sample_world) ''linda.rodriguez@nisd.net'')
             = None"
    by (simp add: sample_world_def)
  have p: "cache_put_error ?e = Some (Error ''Service error'')" by simp
  have e': "?e\<lparr>cache_put_error := None\<rparr> = sample_env" by (simp add: sample_env_def)
  have "Date_now ?e = sample_now" by (simp add: sample_env_def)
  then have l: "loadUserPermissionsFromConfig ?e (config sample_world) ''linda.rodriguez@nisd.net''
      = \<lparr> email = ''linda.rodriguez@nisd.net'', campuses = all_campuses, hasAccess = True,
              isFullAccess = True, role = ''administrator'',
              lastUpdated = Some ''2025-08-06T12:00:00.000Z'' \<rparr>"
    unfolding config_sample_world by (rule load_linda)
  note sw = cache_write_failure_swallowed [OF v g disjI1 [OF m] p]
  have a: "getUserPermissions ?e sample_world (JStr ''linda.rodriguez@nisd.net'')
      = (Inr \<lparr> email = ''linda.rodriguez@nisd.net'', campuses = all_campuses, hasAccess = True,
              isFullAccess = True, role = ''administrator'',
              lastUpdated = Some ''2025-08-06T12:00:00.000Z'' \<rparr>, sample_world)"
    using sw l by simp
  have "fst (getUserPermissions sample_env sample_world (JStr ''linda.rodriguez@nisd.net''))
      = fst (getUserPermissions ?e sample_world (JStr ''linda.rodriguez@nisd.net''))"
    using conjunct2 [OF sw] unfolding e' by (rule sym)
  then have b: "fst (getUserPermissions sample_env sample_world (JStr ''linda.rodriguez@nisd.net''))
      = Inr \<lparr> email = ''linda.rodriguez@nisd.net'', campuses = all_campuses, hasAccess = True,
              isFullAccess = True, role = ''administrator'',
              lastUpdated = Some ''2025-08-06T12:00:00.000Z'' \<rparr>"
    using a by simp
  show ?thesis using v g m p a b by blast
qed

subsection \<open>Campus access\<close>

lemma getUserPermissions_invalid:
  "\<not> validateUserEmail (config w) mail \<Longrightarrow>
   getUserPermissions e w mail
     = (Inl (TrackedError PERMISSION_ERROR (Some INVALID_EMAIL)
               ''UserService.getUserPermissions''), w)"
  by (simp add: getUserPermissions_def getUserPermissions_try_def createError_def)

lemma getUserPermissions_linda:
  "getUserPermissions sample_env sample_world (JStr ''linda.rodriguez@nisd.net'')
     = (Inr \<lparr> email = ''linda.rodriguez@nisd.net'', campuses = all_campuses, hasAccess = True,
              isFullAccess = True, role = ''administrator'',
              lastUpdated = Some ''2025-08-06T12:00:00.000Z'' \<rparr>,
        snd (load_and_cache sample_env sample_world
               (permissions_key CONFIG ''linda.rodriguez@nisd.net'')
               ''linda.rodriguez@nisd.net''))"
proof -
  have v: "validateUserEmail (config sample_world) (JStr ''linda.rodriguez@nisd.net'')"
    by (simp add: config_sample_world valid_linda)
  have g: "cache_get_error sample_env = None" by (simp add: sample_env_def)
  have m: "cache sample_world (permissions_key (config sample_world) ''linda.rodriguez@nisd.net'')
             = None"
    by (simp add: sample_world_def)
  have "Date_now sample_env = sample_now" by (simp add: sample_env_def)
  then show ?thesis
    using getUserPermissions_miss [OF v g disjI1 [OF m]]
    by (simp add: config_sample_world load_linda)
qed

text \<open>
  C9. \<^verbatim>\<open>hasAccessToCampus\<close> raises nothing. When permission resolution returns a record,
  the answer is true exactly when the record grants access and lists the campus; when
  resolution raises, the answer is false, and resolution raises for every identity that
  fails the validation.
\<close>

theorem hasAccessToCampus_decided_by_record:
  "(fst (getUserPermissions e w mail) = Inr perms \<longrightarrow>
      fst (hasAccessToCampus e w mail campus)
        = (hasAccess perms = True \<and> campus \<in> set (campuses perms))) \<and>
   (fst (getUserPermissions e w mail) = Inl x \<longrightarrow>
      fst (hasAccessToCampus e w mail campus) = False) \<and>
   (\<not> validateUserEmail (config w) mail \<longrightarrow>
      (\<exists>y. fst (getUserPermissions e w mail) = Inl y) \<and>
      fst (hasAccessToCampus e w mail campus) = False)"
  by (auto simp: hasAccessToCampus_def getUserPermissions_invalid split: prod.splits sum.splits)

theorem hasAccessToCampus_decided_by_record_witness:
  "fst (getUserPermissions sample_env sample_world (JStr ''linda.rodriguez@nisd.net''))
     = Inr \<lparr> email = ''linda.rodriguez@nisd.net'', campuses = all_campuses, hasAccess = True,
              isFullAccess = True, role = ''administrator'',
              lastUpdated = Some ''2025-08-06T12:00:00.000Z'' \<rparr> \<and>
   fst (hasAccessToCampus sample_env sample_world (JStr ''linda.rodriguez@nisd.net'') ''NAHS'')
     = True \<and>
   fst (hasAccessToCampus sample_env sample_world (JStr ''linda.rodriguez@nisd.net'') ''Elsewhere'')
     = False \<and>
   \<not> validateUserEmail (config sample_world) JNull \<and>
   fst (getUserPermissions sample_env sample_world JNull)
     = Inl (TrackedError PERMISSION_ERROR (Some INVALID_EMAIL)
              ''UserService.getUserPermissions'') \<and>
   fst (hasAccessToCampus sample_env sample_world JNull ''NAHS'') = False"
proof -
  let ?p = "\<lparr> email = ''linda.rodriguez@nisd.net'', campuses = all_campuses, hasAccess = True,
              isFullAccess = True, role = ''administrator'',
              lastUpdated = Some ''2025-08-06T12:00:00.000Z'' \<rparr>"
  have r: "fst (getUserPermissions sample_env sample_world (JStr ''linda.rodriguez@nisd.net''))
     = Inr ?p"
    by (simp add: getUserPermissions_linda)
  have 1: "fst (hasAccessToCampus sample_env sample_world (JStr ''linda.rodriguez@nisd.net'')
             ''NAHS'') = True"
    using hasAccessToCampus_decided_by_record
            [of sample_env sample_world "JStr ''linda.rodriguez@nisd.net''" ?p "''NAHS''"] r
    by (simp add: all_campuses_def)
  have 2: "fst (hasAccessToCampus sample_env sample_world (JStr ''linda.rodriguez@nisd.net'')
             ''Elsewhere'') = False"
    using hasAccessToCampus_decided_by_record
            [of sample_env sample_world "JStr ''linda.rodriguez@nisd.net''" ?p "''Elsewhere''"] r
    by (simp add: all_campuses_def)
  have n: "\<not> validateUserEmail (config sample_world) JNull"
    by (simp add: validateUserEmail_def)
  have 3: "fst (getUserPermissions sample_env sample_world JNull)
     = Inl (TrackedError PERMISSION_ERROR (Some INVALID_EMAIL)
              ''UserService.getUserPermissions'')"
    by (simp add: getUserPermissions_invalid [OF n])
  have 4: "fst (hasAccessToCampus sample_env sample_world JNull ''NAHS'') = False"
    using hasAccessToCampus_decided_by_record
            [of sample_env sample_world JNull _ "''NAHS''"] n 3
    by simp
  show ?thesis using r 1 2 n 3 4 by blast
qed

subsection \<open>The data endpoint\<close>

lemma filterCaseloadData_returns: "\<exists>json. filterCaseloadData e w = Inr json"
  by (simp add: filterCaseloadData_def split: sum.splits)

lemma filterCaseloadData_try_raises:
  "filterCaseloadData_try e w = Inl x \<Longrightarrow> filterCaseloadData e w = Inr ''[]''"
  by (simp add: filterCaseloadData_def)

text \<open>
  C1. \<^verbatim>\<open>filterCaseloadData\<close> always returns a string and raises nothing. It returns the
  text \<^verbatim>\<open>[]\<close> when the session raises or gives an empty email, when the email fails the
  validation, when the permission record has no access, when the permission lookup
  raises, when the data fetch (which holds the transform) raises, and whenever anything
  in the body of its \<^verbatim>\<open>try\<close> raises.
\<close>

theorem filterCaseloadData_degrades_to_empty:
  "(\<exists>json. filterCaseloadData e w = Inr json) \<and>
   (Session_getEmail e = Inl x \<longrightarrow> filterCaseloadData e w = Inr ''[]'') \<and>
   (Session_getEmail e = Inr [] \<longrightarrow> filterCaseloadData e w = Inr ''[]'') \<and>
   (Session_getEmail e = Inr mail \<and> \<not> validateUserEmail (config w) (JStr mail) \<longrightarrow>
      filterCaseloadData e w = Inr ''[]'') \<and>
   (Session_getEmail e = Inr mail \<and> fst (getUserPermissions e w (JStr mail)) = Inr perms \<and>
    hasAccess perms = False \<longrightarrow> filterCaseloadData e w = Inr ''[]'') \<and>
   (Session_getEmail e = Inr mail \<and> fst (getUserPermissions e w (JStr mail)) = Inl x \<longrightarrow>
      filterCaseloadData e w = Inr ''[]'') \<and>
   (Session_getEmail e = Inr mail \<and> getCachedDataForUser e mail = Inl x \<longrightarrow>
      filterCaseloadData e w = Inr ''[]'') \<and>
   (filterCaseloadData_try e w = Inl x \<longrightarrow> filterCaseloadData e w = Inr ''[]'')"
proof (intro conjI impI)
  show "\<exists>json. filterCaseloadData e w = Inr json"
    by (rule filterCaseloadData_returns)
next
  assume "Session_getEmail e = Inl x"
  then show "filterCaseloadData e w = Inr ''[]''"
    by (simp add: filterCaseloadData_def filterCaseloadData_try_def getCurrentUserEmail_def)
next
  assume "Session_getEmail e = Inr []"
  then show "filterCaseloadData e w = Inr ''[]''"
    by (simp add: filterCaseloadData_def filterCaseloadData_try_def getCurrentUserEmail_def)
next
  assume "Session_getEmail e = Inr mail \<and> \<not> validateUserEmail (config w) (JStr mail)"
  then show "filterCaseloadData e w = Inr ''[]''"
    by (simp add: filterCaseloadData_def filterCaseloadData_try_def getCurrentUserEmail_def)
next
  assume "Session_getEmail e = Inr mail \<and>
          fst (getUserPermissions e w (JStr mail)) = Inr perms \<and> hasAccess perms = False"
  then show "filterCaseloadData e w = Inr ''[]''"
    by (auto simp: filterCaseloadData_def filterCaseloadData_try_def getCurrentUserEmail_def
          split: prod.splits sum.splits)
next
  assume "Session_getEmail e = Inr mail \<and> fst (getUserPermissions e w (JStr mail)) = Inl x"
  then show "filterCaseloadData e w = Inr ''[]''"
    by (auto simp: filterCaseloadData_def filterCaseloadData_try_def getCurrentUserEmail_def
          split: prod.splits sum.splits)
next
  assume "Session_getEmail e = Inr mail \<and> getCachedDataForUser e mail = Inl x"
  then show "filterCaseloadData e w = Inr ''[]''"
    by (auto simp: filterCaseloadData_def filterCaseloadData_try_def getCurrentUserEmail_def
          split: prod.splits sum.splits)
next
  assume "filterCaseloadData_try e w = Inl x"
  then show "filterCaseloadData e w = Inr ''[]''"
    by (rule filterCaseloadData_try_raises)
qed

lemma valid_nobody: "validateUserEmail CONFIG (JStr ''nobody@nisd.net'')"
  by (simp add: validateUserEmail_def CONFIG_def endsWith_def emailRegex_test_def
        addr_char_def is_space_def suffix_to_prefix)

lemma lookup_nobody: "LEGACY_EMAIL_CAMPUS_MAPPING CONFIG ''nobody@nisd.net'' = None"
  by (simp add: CONFIG_def mapping_entries_def)

lemma getUserPermissions_nobody:
  "fst (getUserPermissions (sample_env\<lparr>Session_getEmail := Inr ''nobody@nisd.net''\<rparr>)
          sample_world (JStr ''nobody@nisd.net''))
     = Inr \<lparr> email = ''nobody@nisd.net'', campuses = [], hasAccess = False,
              isFullAccess = False, role = ''none'', lastUpdated = None \<rparr>"
proof -
  let ?e = "sample_env\<lparr>Session_getEmail := Inr ''nobody@nisd.net''\<rparr>"
  have v: "validateUserEmail (config sample_world) (JStr ''nobody@nisd.net'')"
    by (simp add: config_sample_world valid_nobody)
  have g: "cache_get_error ?e = None" by (simp add: sample_env_def)
  have m: "cache sample_world (permissions_key (config sample_world) ''nobody@nisd.net'') = None"
    by (simp add: sample_world_def)
  show ?thesis
    using getUserPermissions_miss [OF v g disjI1 [OF m]]
    by (simp add: config_sample_world loadUserPermissionsFromConfig_def lookup_nobody)
qed

lemma getUserPermissions_cache_read_raises:
  "fst (getUserPermissions (sample_env\<lparr>cache_get_error := Some (Error ''Service error'')\<rparr>)
          sample_world (JStr ''linda.rodriguez@nisd.net''))
     = Inl (TrackedError PERMISSION_ERROR (Some ''Service error'')
              ''UserService.getUserPermissions'')"
  by (simp add: getUserPermissions_def getUserPermissions_try_def cache_get_def createError_def
        config_sample_world valid_linda)

theorem filterCaseloadData_degrades_to_empty_witness:
  "Session_getEmail (sample_env\<lparr>Session_getEmail := Inl (Error ''No session'')\<rparr>)
     = Inl (Error ''No session'') \<and>
   filterCaseloadData (sample_env\<lparr>Session_getEmail := Inl (Error ''No session'')\<rparr>) sample_world
     = Inr ''[]'' \<and>
   filterCaseloadData (sample_env\<lparr>Session_getEmail := Inr []\<rparr>) sample_world = Inr ''[]'' \<and>
   \<not> validateUserEmail (config sample_world) (JStr ''user@bad.com'') \<and>
   filterCaseloadData (sample_env\<lparr>Session_getEmail := Inr ''user@bad.com''\<rparr>) sample_world
     = Inr ''[]'' \<and>
   fst (getUserPermissions (sample_env\<lparr>Session_getEmail := Inr ''nobody@nisd.net''\<rparr>)
          sample_world (JStr ''nobody@nisd.net''))
     = Inr \<lparr> email = ''nobody@nisd.net'', campuses = [], hasAccess = False,
              isFullAccess = False, role = ''none'', lastUpdated = None \<rparr> \<and>
   filterCaseloadData (sample_env\<lparr>Session_getEmail := Inr ''nobody@nisd.net''\<rparr>) sample_world
     = Inr ''[]'' \<and>
   fst (getUserPermissions (sample_env\<lparr>cache_get_error := Some (Error ''Service error'')\<rparr>)
          sample_world (JStr ''linda.rodriguez@nisd.net''))
     = Inl (TrackedError PERMISSION_ERROR (Some ''Service error'')
              ''UserService.getUserPermissions'') \<and>
   filterCaseloadData (sample_env\<lparr>cache_get_error := Some (Error ''Service error'')\<rparr>)
       sample_world = Inr ''[]'' \<and>
   filterCaseloadData
       (sample_env\<lparr>getCachedDataForUser := \<lambda>mail. Inl (Error ''Error loading data'')\<rparr>)
       sample_world = Inr ''[]'' \<and>
   filterCaseloadData_try (sample_env\<lparr>Session_getEmail := Inr []\<rparr>) sample_world
     = Inl (Error ''Unable to identify current user'')"
proof -
  let ?e1 = "sample_env\<lparr>Session_getEmail := Inl (Error ''No session'')\<rparr>"
  let ?e2 = "sample_env\<lparr>Session_getEmail := Inr []\<rparr>"
  let ?e3 = "sample_env\<lparr>Session_getEmail := Inr ''user@bad.com''\<rparr>"
  let ?e4 = "sample_env\<lparr>Session_getEmail := Inr ''nobody@nisd.net''\<rparr>"
  let ?e5 = "sample_env\<lparr>cache_get_error := Some (Error ''Service error'')\<rparr>"
  let ?e6 = "sample_env\<lparr>getCachedDataForUser := \<lambda>mail. Inl (Error ''Error loading data'')\<rparr>"
  let ?nobody = "\<lparr> email = ''nobody@nisd.net'', campuses = [], hasAccess = False,
              isFullAccess = False, role = ''none'', lastUpdated = None \<rparr>"
  have h1: "Session_getEmail ?e1 = Inl (Error ''No session'')" by simp
  have c1: "filterCaseloadData ?e1 sample_world = Inr ''[]''"
    using filterCaseloadData_degrades_to_empty [of ?e1 sample_world "Error ''No session''"] h1
    by blast
  have h2: "Session_getEmail ?e2 = Inr []" by simp
  have c2: "filterCaseloadData ?e2 sample_world = Inr ''[]''"
    using filterCaseloadData_degrades_to_empty [of ?e2 sample_world] h2 by blast
  have h3: "\<not> validateUserEmail (config sample_world) (JStr ''user@bad.com'')"
    by (simp add: config_sample_world validateUserEmail_def CONFIG_def endsWith_def
          suffix_to_prefix)
  have "Session_getEmail ?e3 = Inr ''user@bad.com''" by simp
  then have c3: "filterCaseloadData ?e3 sample_world = Inr ''[]''"
    using filterCaseloadData_degrades_to_empty [of ?e3 sample_world _ "''user@bad.com''"] h3
    by blast
  have h4: "fst (getUserPermissions ?e4 sample_world (JStr ''nobody@nisd.net'')) = Inr ?nobody"
    by (rule getUserPermissions_nobody)
  have "Session_getEmail ?e4 = Inr ''nobody@nisd.net''" "hasAccess ?nobody = False" by simp_all
  then have c4: "filterCaseloadData ?e4 sample_world = Inr ''[]''"
    using filterCaseloadData_degrades_to_empty
            [of ?e4 sample_world _ "''nobody@nisd.net''" ?nobody] h4
    by blast
  have h5: "fst (getUserPermissions ?e5 sample_world (JStr ''linda.rodriguez@nisd.net''))
     = Inl (TrackedError PERMISSION_ERROR (Some ''Service error'')
              ''UserService.getUserPermissions'')"
    by (rule getUserPermissions_cache_read_raises)
  have "Session_getEmail ?e5 = Inr ''linda.rodriguez@nisd.net''" by (simp add: sample_env_def)
  then have c5: "filterCaseloadData ?e5 sample_world = Inr ''[]''"
    using filterCaseloadData_degrades_to_empty
            [of ?e5 sample_world
                "TrackedError PERMISSION_ERROR (Some ''Service error'')
                   ''UserService.getUserPermissions''"
                "''linda.rodriguez@nisd.net''"] h5
    by blast
  have "Session_getEmail ?e6 = Inr ''linda.rodriguez@nisd.net''"
       "getCachedDataForUser ?e6 ''linda.rodriguez@nisd.net'' = Inl (Error ''Error loading data'')"
    by (simp_all add: sample_env_def)
  then have c6: "filterCaseloadData ?e6 sample_world = Inr ''[]''"
    using filterCaseloadData_degrades_to_empty
            [of ?e6 sample_world "Error ''Error loading data''" "''linda.rodriguez@nisd.net''"]
    by blast
  have h7: "filterCaseloadData_try ?e2 sample_world = Inl (Error ''Unable to identify current user'')"
    by (simp add: filterCaseloadData_try_def getCurrentUserEmail_def)
  show ?thesis using h1 c1 c2 h3 c3 h4 c4 h5 c5 c6 h7 by blast
qed

subsection \<open>The health check\<close>

text \<open>
  C6. \<^verbatim>\<open>healthCheck\<close> returns a status object and raises nothing. Its status is
  \<^verbatim>\<open>healthy\<close> exactly when all four probes succeed, and \<^verbatim>\<open>degraded\<close> otherwise. The probes,
  as the function runs them: \<^verbatim>\<open>initializeSpreadsheet\<close> does not raise; the session gives a
  non-empty email; a \<^verbatim>\<open>put\<close> to the script cache does not raise (the probe writes the key
  \<^verbatim>\<open>health_test\<close> and reads nothing back); \<^verbatim>\<open>getDataStatistics\<close> does not raise and its
  result has no truthy \<^verbatim>\<open>error\<close> property. Each flag of the returned \<^verbatim>\<open>tests\<close> object is
  the outcome of its probe.
\<close>

theorem healthCheck_status:
  "status (fst (healthCheck e w))
     = (if initializeSpreadsheet e = None \<and>
           (\<exists>mail. Session_getEmail e = Inr mail \<and> mail \<noteq> []) \<and>
           cache_put_error e = None \<and>
           (\<exists>err. getDataStatistics e = Inr err \<and> \<not> truthy err)
        then ''healthy'' else ''degraded'') \<and>
   spreadsheetAccess (tests (fst (healthCheck e w))) = (initializeSpreadsheet e = None) \<and>
   userService (tests (fst (healthCheck e w)))
     = (\<exists>mail. Session_getEmail e = Inr mail \<and> mail \<noteq> []) \<and>
   cacheService (tests (fst (healthCheck e w))) = (cache_put_error e = None) \<and>
   dataProcessing (tests (fst (healthCheck e w)))
     = (\<exists>err. getDataStatistics e = Inr err \<and> \<not> truthy err)"
  by (auto simp: healthCheck_def Let_def getCurrentUserEmail_def cache_put_def
        split: option.splits sum.splits prod.splits)

theorem healthCheck_status_witness:
  "status (fst (healthCheck sample_env sample_world)) = ''healthy'' \<and>
   status (fst (healthCheck (sample_env\<lparr>cache_put_error := Some (Error ''Service error'')\<rparr>)
                  sample_world)) = ''degraded'' \<and>
   status (fst (healthCheck (sample_env\<lparr>getDataStatistics := Inr (JStr ''No data'')\<rparr>)
                  sample_world)) = ''degraded'' \<and>
   status (fst (healthCheck (sample_env\<lparr>Session_getEmail := Inr []\<rparr>) sample_world))
     = ''degraded'' \<and>
   status (fst (healthCheck
                  (sample_env\<lparr>initializeSpreadsheet := Some (Error ''Document is missing'')\<rparr>)
                  sample_world)) = ''degraded''"
  using healthCheck_status [of sample_env sample_world]
    healthCheck_status [of "sample_env\<lparr>cache_put_error := Some (Error ''Service error'')\<rparr>"
                           sample_world]
    healthCheck_status [of "sample_env\<lparr>getDataStatistics := Inr (JStr ''No data'')\<rparr>"
                           sample_world]
    healthCheck_status [of "sample_env\<lparr>Session_getEmail := Inr []\<rparr>" sample_world]
    healthCheck_status
      [of "sample_env\<lparr>initializeSpreadsheet := Some (Error ''Document is missing'')\<rparr>"
          sample_world]
  by (simp add: sample_env_def)

subsection \<open>The configuration is never written\<close>

lemma config_UserService_clearUserCache: "config (UserService_clearUserCache e w mail) = config w"
  by (simp add: UserService_clearUserCache_def cache_remove_def split: option.splits)

lemma config_clearUserCache: "config (snd (clearUserCache e w)) = config w"
  by (simp add: clearUserCache_def Let_def config_UserService_clearUserCache
        split: sum.splits prod.splits option.splits)

text \<open>The body of the \<^verbatim>\<open>try\<close>, by the outcome of the session and of the access test.\<close>

lemma updateSpreadsheetConfig_try_cases:
  "updateSpreadsheetConfig_try e w newId sheetArg
     = (case getCurrentUserEmail e of
          Inl error \<Rightarrow> (Inl error, w)
        | Inr currentUserEmail \<Rightarrow>
            if \<not> includes_str currentUserEmail ''alvaro.gomez@nisd.net'' \<and>
               \<not> includes_str currentUserEmail ''linda.rodriguez@nisd.net''
            then (Inl (Error (''Unauthorized: Only administrators can update ''
                              @ ''spreadsheet configuration'')), w)
            else
              (case test_access e newId
                      (case sheetArg of None \<Rightarrow> ''CURRENT CASELOAD'' | Some n \<Rightarrow> n) of
                 Inl testError \<Rightarrow>
                   (Inl (Error (''Cannot access new spreadsheet: '' @ message testError)), w)
               | Inr u \<Rightarrow>
                   (Inr \<lparr> update_success = True,
                          update_message = manual_update_message (SPREADSHEET_ID (config w)) newId,
                          currentSpreadsheetId = Some (SPREADSHEET_ID (config w)),
                          newSpreadsheetId = Some newId,
                          updatedBy = Some currentUserEmail,
                          update_errorId = None,
                          update_timestamp = toISOString (Date_now e) \<rparr>,
                    snd (clearUserCache e w))))"
proof -
  obtain q v where cl: "clearUserCache e w = (q, v)"
    by (cases "clearUserCache e w")
  then have c: "config v = config w"
    using config_clearUserCache [of e w] by simp
  show ?thesis
    unfolding updateSpreadsheetConfig_try_def Let_def
    by (simp add: cl c split: sum.splits)
qed

lemma updateSpreadsheetConfig_try_raises:
  assumes "updateSpreadsheetConfig_try e w newId sheetArg = (Inl x, w')"
  shows "w' = w"
proof (cases "getCurrentUserEmail e")
  case (Inl error)
  with assms show ?thesis by (simp add: updateSpreadsheetConfig_try_cases)
next
  case (Inr mail)
  show ?thesis
  proof (cases "test_access e newId
                  (case sheetArg of None \<Rightarrow> ''CURRENT CASELOAD'' | Some n \<Rightarrow> n)")
    case (Inl testError)
    with assms Inr show ?thesis
      by (simp add: updateSpreadsheetConfig_try_cases split: if_splits)
  next
    case (Inr u)
    with assms \<open>getCurrentUserEmail e = Inr mail\<close> show ?thesis
      by (simp add: updateSpreadsheetConfig_try_cases split: if_splits)
  qed
qed

lemma updateSpreadsheetConfig_try_returns:
  assumes "updateSpreadsheetConfig_try e w newId sheetArg = (Inr r, w')"
  shows "w' = snd (clearUserCache e w) \<and> update_success r = True \<and>
         update_message r = manual_update_message (SPREADSHEET_ID (config w)) newId \<and>
         currentSpreadsheetId r = Some (SPREADSHEET_ID (config w)) \<and>
         test_access e newId (case sheetArg of None \<Rightarrow> ''CURRENT CASELOAD'' | Some n \<Rightarrow> n)
           = Inr ()"
proof (cases "getCurrentUserEmail e")
  case (Inl error)
  with assms show ?thesis by (simp add: updateSpreadsheetConfig_try_cases)
next
  case (Inr mail)
  show ?thesis
  proof (cases "test_access e newId
                  (case sheetArg of None \<Rightarrow> ''CURRENT CASELOAD'' | Some n \<Rightarrow> n)")
    case (Inl testError)
    with assms Inr show ?thesis
      by (simp add: updateSpreadsheetConfig_try_cases split: if_splits)
  next
    case (Inr u)
    with assms \<open>getCurrentUserEmail e = Inr mail\<close> show ?thesis
      by (simp add: updateSpreadsheetConfig_try_cases split: if_splits) auto
  qed
qed

text \<open>
  C8. \<^verbatim>\<open>updateSpreadsheetConfig\<close> leaves the configuration as it was, whether it succeeds
  or fails. A request can change only the configuration and the script cache, and of the
  two the call changes at most the cache: on failure nothing, on success what
  \<^verbatim>\<open>clearUserCache\<close> does. On success the message tells the administrator to change
  \<^verbatim>\<open>CONFIG.SPREADSHEET.SPREADSHEET_ID\<close> in \<^verbatim>\<open>Config.js\<close> by hand, and the current identifier
  reported is the unchanged one; success requires the candidate spreadsheet to pass the
  access test.
\<close>

theorem updateSpreadsheetConfig_preserves_config:
  "config (snd (updateSpreadsheetConfig e w newId sheetArg)) = config w \<and>
   snd (updateSpreadsheetConfig e w newId sheetArg)
     = (if update_success (fst (updateSpreadsheetConfig e w newId sheetArg))
        then snd (clearUserCache e w) else w) \<and>
   (update_success (fst (updateSpreadsheetConfig e w newId sheetArg)) \<longrightarrow>
      update_message (fst (updateSpreadsheetConfig e w newId sheetArg))
        = manual_update_message (SPREADSHEET_ID (config w)) newId \<and>
      currentSpreadsheetId (fst (updateSpreadsheetConfig e w newId sheetArg))
        = Some (SPREADSHEET_ID (config w)) \<and>
      test_access e newId (case sheetArg of None \<Rightarrow> ''CURRENT CASELOAD'' | Some n \<Rightarrow> n)
        = Inr ())"
proof -
  obtain res w' where t: "updateSpreadsheetConfig_try e w newId sheetArg = (res, w')"
    by (cases "updateSpreadsheetConfig_try e w newId sheetArg")
  show ?thesis
  proof (cases res)
    case (Inl x)
    with t have "w' = w" by (simp add: updateSpreadsheetConfig_try_raises)
    with t Inl show ?thesis by (simp add: updateSpreadsheetConfig_def)
  next
    case (Inr r)
    with t updateSpreadsheetConfig_try_returns [of e w newId sheetArg r w']
    show ?thesis by (simp add: updateSpreadsheetConfig_def config_clearUserCache)
  qed
qed

lemma sample_admin:
  "getCurrentUserEmail sample_env = Inr ''linda.rodriguez@nisd.net'' \<and>
   includes_str ''linda.rodriguez@nisd.net'' ''linda.rodriguez@nisd.net''"
  by (simp add: getCurrentUserEmail_def sample_env_def)

lemma sample_test_access:
  "test_access sample_env ''2025'' ''CURRENT CASELOAD'' = Inr () \<and>
   test_access sample_env ''2024'' ''CURRENT CASELOAD'' = Inl (Error ''Document is missing'')"
  by (simp add: test_access_def sample_env_def)

theorem updateSpreadsheetConfig_preserves_config_witness:
  "update_success (fst (updateSpreadsheetConfig sample_env sample_world ''2025'' None)) = True \<and>
   config (snd (updateSpreadsheetConfig sample_env sample_world ''2025'' None)) = CONFIG \<and>
   update_message (fst (updateSpreadsheetConfig sample_env sample_world ''2025'' None))
     = manual_update_message ''1SxbUOEIaogQyy66E4fvLcIqblGnvueduSaYz1ftsAEA'' ''2025'' \<and>
   update_success (fst (updateSpreadsheetConfig sample_env sample_world ''2024'' None)) = False \<and>
   snd (updateSpreadsheetConfig sample_env sample_world ''2024'' None) = sample_world"
proof -
  have s: "update_success (fst (updateSpreadsheetConfig sample_env sample_world ''2025'' None))
             = True"
    by (simp add: updateSpreadsheetConfig_def updateSpreadsheetConfig_try_cases sample_admin
          sample_test_access)
  have f: "update_success (fst (updateSpreadsheetConfig sample_env sample_world ''2024'' None))
             = False"
    by (simp add: updateSpreadsheetConfig_def updateSpreadsheetConfig_try_cases sample_admin
          sample_test_access)
  have i: "SPREADSHEET_ID CONFIG = ''1SxbUOEIaogQyy66E4fvLcIqblGnvueduSaYz1ftsAEA''"
    by (simp add: CONFIG_def)
  show ?thesis
    using updateSpreadsheetConfig_preserves_config [of sample_env sample_world "''2025''" None]
      updateSpreadsheetConfig_preserves_config [of sample_env sample_world "''2024''" None]
      s f i
    by (simp add: config_sample_world config_clearUserCache)
qed

subsection \<open>The error identifier\<close>

lemma of_char_digit_char: "of_char (digit_char (k mod 10)) = (48 + k mod 10 :: nat)"
proof -
  have "k mod 10 < 10" by simp
  then have "(48 + k mod 10) mod 256 = 48 + k mod 10" by simp
  then show ?thesis by (simp add: digit_char_def)
qed

lemma is_digit_digit_char: "is_digit (digit_char (k mod 10))"
  by (simp add: is_digit_def of_char_digit_char)

lemma digit_char_no_separator: "digit_char (k mod 10) \<notin> set ''-:T.''"
proof
  assume "digit_char (k mod 10) \<in> set ''-:T.''"
  then have "(of_char (digit_char (k mod 10)) :: nat) \<in> of_char ` set ''-:T.''"
    by (rule imageI)
  then show False
    unfolding of_char_digit_char by auto
qed

lemma filter_pad2: "filter (\<lambda>c. c \<notin> set ''-:T.'') (pad2 n) = pad2 n"
  using digit_char_no_separator [of "n div 10"] digit_char_no_separator [of n]
  by (simp add: pad2_def)

lemma filter_pad3: "filter (\<lambda>c. c \<notin> set ''-:T.'') (pad3 n) = pad3 n"
  using digit_char_no_separator [of "n div 100"] filter_pad2 [of n]
  by (simp add: pad3_def)

lemma filter_pad4: "filter (\<lambda>c. c \<notin> set ''-:T.'') (pad4 n) = pad4 n"
  using digit_char_no_separator [of "n div 1000"] filter_pad3 [of n]
  by (simp add: pad4_def)

lemma length_pad: "length (pad2 n) = 2" "length (pad3 n) = 3" "length (pad4 n) = 4"
  by (simp_all add: pad2_def pad3_def pad4_def)

lemma digits_pad2: "list_all is_digit (pad2 n)"
  by (simp add: pad2_def is_digit_digit_char)

lemma digits_pad4: "list_all is_digit (pad4 n)"
  by (simp add: pad4_def pad3_def pad2_def is_digit_digit_char)

text \<open>The 14 characters \<^verbatim>\<open>YYYYMMDDHHmmss\<close> of a clock reading.\<close>

lemma timestamp_of_clock:
  assumes "0 \<le> year d" "year d \<le> 9999"
  shows "take 14 (filter (\<lambda>c. c \<notin> set ''-:T.'') (toISOString d))
       = pad4 (nat (year d)) @ pad2 (month d) @ pad2 (day d) @ pad2 (hours d)
         @ pad2 (minutes d) @ pad2 (seconds d)"
proof -
  let ?ts = "pad4 (nat (year d)) @ pad2 (month d) @ pad2 (day d) @ pad2 (hours d)
         @ pad2 (minutes d) @ pad2 (seconds d)"
  have "filter (\<lambda>c. c \<notin> set ''-:T.'') (toISOString d) = ?ts @ pad3 (millis d) @ ''Z''"
    using assms unfolding toISOString_def
    by (simp only: filter_append filter_pad2 filter_pad3 filter_pad4 if_True simp_thms) simp
  moreover have "length ?ts = 14" by (simp add: length_pad)
  ultimately show ?thesis by simp
qed

lemma error_id_format_parts:
  assumes "length ts = 14" "list_all is_digit ts" "list_all is_alnum r"
  shows "error_id_format (''ERR_'' @ ts @ ''_'' @ r) = (length r = 6)"
  unfolding error_id_format_def using assms by auto

text \<open>
  C7, as the code has it. For a clock reading with a year from 0 to 9999 the identifier
  is \<^verbatim>\<open>ERR_\<close>, the 14 digits \<^verbatim>\<open>YYYYMMDDHHmmss\<close> of the reading, an underscore, and the
  characters 2 to 7 of the base-36 text of the random number: at most 6 characters, and
  as many as that text has after its first two. When those are letters or digits, the
  identifier has the format \<^verbatim>\<open>ERR_<14 digits>_<6 characters>\<close> exactly when the base-36
  text has at least 8 characters, that is, at least 6 digits after \<^verbatim>\<open>0.\<close>.
\<close>

theorem generateErrorId_shape:
  assumes "Date_now e = d" and "0 \<le> year d" and "year d \<le> 9999"
  shows "generateErrorId e
           = ''ERR_'' @ (pad4 (nat (year d)) @ pad2 (month d) @ pad2 (day d) @ pad2 (hours d)
                         @ pad2 (minutes d) @ pad2 (seconds d))
             @ ''_'' @ take 6 (drop 2 (Math_random_36 e)) \<and>
         length (pad4 (nat (year d)) @ pad2 (month d) @ pad2 (day d) @ pad2 (hours d)
                 @ pad2 (minutes d) @ pad2 (seconds d)) = 14 \<and>
         list_all is_digit (pad4 (nat (year d)) @ pad2 (month d) @ pad2 (day d) @ pad2 (hours d)
                            @ pad2 (minutes d) @ pad2 (seconds d)) \<and>
         length (take 6 (drop 2 (Math_random_36 e))) = min 6 (length (Math_random_36 e) - 2) \<and>
         (list_all is_alnum (drop 2 (Math_random_36 e)) \<longrightarrow>
            error_id_format (generateErrorId e) = (8 \<le> length (Math_random_36 e)))"
proof -
  let ?ts = "pad4 (nat (year d)) @ pad2 (month d) @ pad2 (day d) @ pad2 (hours d)
             @ pad2 (minutes d) @ pad2 (seconds d)"
  let ?r = "take 6 (drop 2 (Math_random_36 e))"
  have g: "generateErrorId e = ''ERR_'' @ ?ts @ ''_'' @ ?r"
    unfolding generateErrorId_def Let_def assms(1) timestamp_of_clock [OF assms(2,3)]
    by (rule refl)
  have len: "length ?ts = 14" by (simp add: length_pad)
  have dig: "list_all is_digit ?ts" by (simp add: digits_pad2 digits_pad4)
  have lr: "length ?r = min 6 (length (Math_random_36 e) - 2)" by simp
  have fmt: "error_id_format (generateErrorId e) = (8 \<le> length (Math_random_36 e))"
    if al: "list_all is_alnum (drop 2 (Math_random_36 e))"
  proof -
    have "list_all is_alnum ?r"
      using al by (auto simp: list_all_iff dest: in_set_takeD)
    from error_id_format_parts [OF len dig this]
    have "error_id_format (generateErrorId e) = (length ?r = 6)"
      unfolding g .
    also have "\<dots> = (8 \<le> length (Math_random_36 e))"
      by (simp add: min_def) arith
    finally show ?thesis .
  qed
  show ?thesis using g len dig lr fmt by blast
qed

lemma generateErrorId_sample: "generateErrorId sample_env = ''ERR_20250806120000_4fzyo8''"
  by (simp add: generateErrorId_def sample_env_def toISOString_sample_now)

theorem generateErrorId_shape_witness:
  "Date_now sample_env = sample_now \<and> 0 \<le> year sample_now \<and> year sample_now \<le> 9999 \<and>
   list_all is_alnum (drop 2 (Math_random_36 sample_env)) \<and>
   8 \<le> length (Math_random_36 sample_env) \<and>
   generateErrorId sample_env = ''ERR_20250806120000_4fzyo8'' \<and>
   error_id_format (generateErrorId sample_env)"
proof -
  have d: "Date_now sample_env = sample_now" by (simp add: sample_env_def)
  have y: "0 \<le> year sample_now" "year sample_now \<le> 9999" by (simp_all add: sample_now_def)
  have a: "list_all is_alnum (drop 2 (Math_random_36 sample_env))"
    by (simp add: sample_env_def is_alnum_def is_digit_def)
  have l: "8 \<le> length (Math_random_36 sample_env)" by (simp add: sample_env_def)
  from generateErrorId_shape [OF d y] a l
  have "error_id_format (generateErrorId sample_env)" by blast
  with d y a l generateErrorId_sample show ?thesis by blast
qed

text \<open>
  The claim as stated fails for a random number with a short base-36 text. The number
  0.5 is 18/36, and its text \<^verbatim>\<open>(0.5).toString(36)\<close> is \<^verbatim>\<open>0.i\<close>: the identifier then ends
  in the single character \<^verbatim>\<open>i\<close>.
\<close>

theorem generateErrorId_short_random_part:
  "generateErrorId (sample_env\<lparr>Math_random_36 := ''0.i''\<rparr>) = ''ERR_20250806120000_i'' \<and>
   \<not> error_id_format (generateErrorId (sample_env\<lparr>Math_random_36 := ''0.i''\<rparr>))"
proof -
  have g: "generateErrorId (sample_env\<lparr>Math_random_36 := ''0.i''\<rparr>) = ''ERR_20250806120000_i''"
    by (simp add: generateErrorId_def sample_env_def toISOString_sample_now)
  show ?thesis unfolding g by (simp add: error_id_format_def)
qed

subsection \<open>The reference permission table\<close>

lemma full_access_entries:
  "filter (\<lambda>entry. 17 \<le> length (snd entry)) mapping_entries
     = [(''linda.rodriguez@nisd.net'', all_campuses)]"
  by (simp add: mapping_entries_def all_campuses_def)

lemma full_access_entry:
  assumes "map_of mapping_entries mail = Some campusList" and "17 \<le> length campusList"
  shows "mail = ''linda.rodriguez@nisd.net''"
proof -
  have "(mail, campusList) \<in> set mapping_entries"
    using assms(1) by (rule map_of_SomeD)
  with assms(2)
  have "(mail, campusList) \<in> set (filter (\<lambda>entry. 17 \<le> length (snd entry)) mapping_entries)"
    by simp
  then show ?thesis unfolding full_access_entries by simp
qed

lemma lookup_linda_entries:
  "map_of mapping_entries ''linda.rodriguez@nisd.net'' = Some all_campuses"
  using lookup_linda by (simp add: CONFIG_def)

lemma role_from_table:
  "role (loadUserPermissionsFromConfig e CONFIG mail)
     = (case map_of mapping_entries mail of
          None \<Rightarrow> ''none''
        | Some campusList \<Rightarrow>
            if 17 \<le> length campusList then ''administrator'' else ''coordinator'')"
  by (simp add: loadUserPermissionsFromConfig_def CONFIG_def Let_def split: option.splits)

lemma administrator_iff:
  "role (loadUserPermissionsFromConfig e CONFIG mail) = ''administrator''
     \<longleftrightarrow> mail = ''linda.rodriguez@nisd.net''"
proof
  assume a: "role (loadUserPermissionsFromConfig e CONFIG mail) = ''administrator''"
  show "mail = ''linda.rodriguez@nisd.net''"
  proof (cases "map_of mapping_entries mail")
    case None
    with a show ?thesis by (simp add: role_from_table)
  next
    case (Some campusList)
    with a have "17 \<le> length campusList"
      by (simp add: role_from_table split: if_splits)
    with Some show ?thesis by (rule full_access_entry)
  qed
next
  assume "mail = ''linda.rodriguez@nisd.net''"
  then show "role (loadUserPermissionsFromConfig e CONFIG mail) = ''administrator''"
    by (simp add: role_from_table lookup_linda_entries all_campuses_def)
qed

text \<open>
  C10. In the reference configuration the table is the map of the 28 listed entries,
  whose keys are pairwise different. Every campus in every entry is one of the 17 names
  of \<^verbatim>\<open>CONFIG.CAMPUSES\<close>; exactly one entry has a list that meets the threshold of 17; and
  resolution from the table gives the role \<^verbatim>\<open>administrator\<close> to that identity and to no
  other string.
\<close>

theorem reference_table_campuses_and_administrator:
  "LEGACY_EMAIL_CAMPUS_MAPPING CONFIG = map_of mapping_entries \<and>
   distinct (map fst mapping_entries) \<and>
   list_all (\<lambda>entry. list_all (\<lambda>campus. campus \<in> set (CAMPUSES CONFIG)) (snd entry))
     mapping_entries \<and>
   length (CAMPUSES CONFIG) = 17 \<and> distinct (CAMPUSES CONFIG) \<and>
   FULL_ACCESS_CAMPUS_COUNT CONFIG = 17 \<and>
   filter (\<lambda>entry. FULL_ACCESS_CAMPUS_COUNT CONFIG \<le> length (snd entry)) mapping_entries
     = [(''linda.rodriguez@nisd.net'', CAMPUSES CONFIG)] \<and>
   (role (loadUserPermissionsFromConfig e CONFIG mail) = ''administrator'')
     = (mail = ''linda.rodriguez@nisd.net'')"
proof -
  have c: "LEGACY_EMAIL_CAMPUS_MAPPING CONFIG = map_of mapping_entries"
          "CAMPUSES CONFIG = all_campuses" "FULL_ACCESS_CAMPUS_COUNT CONFIG = 17"
    by (simp_all add: CONFIG_def)
  have 1: "distinct (map fst mapping_entries)"
    by (simp add: mapping_entries_def)
  have 2: "list_all (\<lambda>entry. list_all (\<lambda>campus. campus \<in> set all_campuses) (snd entry))
             mapping_entries"
    by (simp add: mapping_entries_def all_campuses_def)
  have 3: "length all_campuses = 17"
    by (simp add: all_campuses_def)
  have 4: "distinct all_campuses"
    by (simp add: all_campuses_def)
  show ?thesis
    unfolding c
    by (intro conjI refl 1 2 3 4 full_access_entries administrator_iff)
qed

theorem reference_table_campuses_and_administrator_witness:
  "role (loadUserPermissionsFromConfig sample_env CONFIG ''linda.rodriguez@nisd.net'')
     = ''administrator'' \<and>
   role (loadUserPermissionsFromConfig sample_env CONFIG ''alvaro.gomez@nisd.net'')
     \<noteq> ''administrator'' \<and>
   role (loadUserPermissionsFromConfig sample_env CONFIG ''nobody@nisd.net'')
     \<noteq> ''administrator''"
proof -
  have a: "role (loadUserPermissionsFromConfig sample_env CONFIG ''linda.rodriguez@nisd.net'')
     = ''administrator''"
    using reference_table_campuses_and_administrator
            [of sample_env "''linda.rodriguez@nisd.net''"]
    by simp
  have b: "role (loadUserPermissionsFromConfig sample_env CONFIG ''alvaro.gomez@nisd.net'')
     \<noteq> ''administrator''"
    using reference_table_campuses_and_administrator [of sample_env "''alvaro.gomez@nisd.net''"]
    by simp
  have c: "role (loadUserPermissionsFromConfig sample_env CONFIG ''nobody@nisd.net'')
     \<noteq> ''administrator''"
    using reference_table_campuses_and_administrator [of sample_env "''nobody@nisd.net''"]
    by simp
  show ?thesis using a b c by blast
qed

end
